theory Spec2Isabelle
  imports Main "HOL-Library.AList"
begin

section \<open>Python values and exceptions\<close>

text \<open>
  The library is Python 2 code: a \<open>str\<close> is a sequence of 8-bit characters, which is
  what \<^typ>\<open>string\<close> is, and an \<open>int\<close> is unbounded, which is \<^typ>\<open>int\<close>. An
  exception that leaves a function is the \<open>Inl\<close> branch of its result.
\<close>

datatype error =
    ValueError string
  | KeyError string
  | IndexError
  | AttributeError
  | TypeError

text \<open>\<open>str(n)\<close> on an integer: its decimal digits, with a minus sign when negative.\<close>

definition digit_char :: "nat \<Rightarrow> char" where
  "digit_char d = ''0123456789abcdef'' ! (d mod 16)"

fun str_nat :: "nat \<Rightarrow> string" where
  "str_nat n = (if n < 10 then [digit_char n] else str_nat (n div 10) @ [digit_char (n mod 10)])"

declare str_nat.simps [simp del]

definition py_str :: "int \<Rightarrow> string" where
  "py_str i = (if i < 0 then CHR ''-'' # str_nat (nat (- i)) else str_nat (nat i))"

text \<open>
  \<open>int(s)\<close> on a string: blanks around the literal are dropped, then an optional sign and
  at least one decimal digit are read; anything else raises \<open>ValueError\<close>.
\<close>

definition is_space :: "char \<Rightarrow> bool" where
  "is_space c = (c \<in> set [CHR '' '', CHR 0x09, CHR 0x0A, CHR 0x0B, CHR 0x0C, CHR 0x0D])"

definition py_strip :: "string \<Rightarrow> string" where
  "py_strip s = rev (dropWhile is_space (rev (dropWhile is_space s)))"

definition digit_val :: "nat \<Rightarrow> char \<Rightarrow> nat option" where
  "digit_val base c =
     (let n = (of_char c :: nat);
          v = (if 48 \<le> n \<and> n \<le> 57 then Some (n - 48)
               else if 97 \<le> n \<and> n \<le> 122 then Some (n - 87)
               else if 65 \<le> n \<and> n \<le> 90 then Some (n - 55)
               else None)
      in case v of None \<Rightarrow> None | Some d \<Rightarrow> if d < base then Some d else None)"

fun digits_val :: "nat \<Rightarrow> nat \<Rightarrow> string \<Rightarrow> nat option" where
  "digits_val base acc [] = Some acc"
| "digits_val base acc (c # cs) =
     (case digit_val base c of
        None \<Rightarrow> None
      | Some d \<Rightarrow> digits_val base (base * acc + d) cs)"

definition unsigned_literal :: "nat \<Rightarrow> string \<Rightarrow> error + int" where
  "unsigned_literal base s =
     (if s = [] then Inl (ValueError ''invalid literal for int()'')
      else case digits_val base 0 s of
        None \<Rightarrow> Inl (ValueError ''invalid literal for int()'')
      | Some n \<Rightarrow> Inr (int n))"

definition signed_literal :: "(string \<Rightarrow> error + int) \<Rightarrow> string \<Rightarrow> error + int" where
  "signed_literal body s =
     (case py_strip s of
        [] \<Rightarrow> Inl (ValueError ''invalid literal for int()'')
      | c # cs \<Rightarrow>
          if c = CHR ''-'' then (case body cs of Inl e \<Rightarrow> Inl e | Inr n \<Rightarrow> Inr (- n))
          else if c = CHR ''+'' then body cs
          else body (c # cs))"

definition py_int :: "string \<Rightarrow> error + int" where
  "py_int s = signed_literal (unsigned_literal 10) s"

text \<open>
  \<open>int(s, 16)\<close>: as \<open>int(s)\<close> with hexadecimal digits of either case, after an optional
  \<open>0x\<close> or \<open>0X\<close> that follows the sign.
\<close>

definition hex_body :: "string \<Rightarrow> error + int" where
  "hex_body s =
     (case s of
        a # b # cs \<Rightarrow>
          if a = CHR ''0'' \<and> (b = CHR ''x'' \<or> b = CHR ''X'') then unsigned_literal 16 cs
          else unsigned_literal 16 s
      | _ \<Rightarrow> unsigned_literal 16 s)"

definition py_int16 :: "string \<Rightarrow> error + int" where
  "py_int16 s = signed_literal hex_body s"

text \<open>\<open>ord(c)\<close> and \<open>chr(i)\<close>; \<open>chr\<close> raises outside \<open>range(256)\<close>.\<close>

definition ord :: "char \<Rightarrow> int" where
  "ord c = of_char c"

definition chr :: "int \<Rightarrow> error + char" where
  "chr i = (if 0 \<le> i \<and> i < 256 then Inr (char_of i) else Inl (ValueError ''chr() arg not in range(256)''))"

text \<open>\<open>hex(n)\<close> of a non-negative machine integer, \<open>s.lstrip(chars)\<close> and \<open>s.zfill(width)\<close>.\<close>

fun hex_nat :: "nat \<Rightarrow> string" where
  "hex_nat n = (if n < 16 then [digit_char n] else hex_nat (n div 16) @ [digit_char (n mod 16)])"

declare hex_nat.simps [simp del]

definition py_hex :: "int \<Rightarrow> string" where
  "py_hex i = (if i < 0 then ''-0x'' @ hex_nat (nat (- i)) else ''0x'' @ hex_nat (nat i))"

definition lstrip :: "string \<Rightarrow> string \<Rightarrow> string" where
  "lstrip chars s = dropWhile (\<lambda>c. c \<in> set chars) s"

definition zfill :: "nat \<Rightarrow> string \<Rightarrow> string" where
  "zfill width s =
     (if width \<le> length s then s
      else case s of
        c # cs \<Rightarrow>
          if c = CHR ''+'' \<or> c = CHR ''-'' then c # replicate (width - length s) CHR ''0'' @ cs
          else replicate (width - length s) CHR ''0'' @ s
      | [] \<Rightarrow> replicate width CHR ''0'')"

text \<open>\<open>s.split(sep)\<close> for a one-character separator: the pieces between the separators.\<close>

fun split_on :: "char \<Rightarrow> string \<Rightarrow> string list" where
  "split_on sep [] = [[]]"
| "split_on sep (c # cs) =
     (if c = sep then [] # split_on sep cs
      else case split_on sep cs of
        w # ws \<Rightarrow> (c # w) # ws
      | [] \<Rightarrow> [[c]])"

text \<open>The first exception of a list of results, or all their values.\<close>

fun collect :: "(error + 'a) list \<Rightarrow> error + 'a list" where
  "collect [] = Inr []"
| "collect (r # rs) =
     (case r of
        Inl e \<Rightarrow> Inl e
      | Inr v \<Rightarrow> (case collect rs of Inl e \<Rightarrow> Inl e | Inr vs \<Rightarrow> Inr (v # vs)))"

section \<open>Port-channel table keys and member lists (\<open>snmp/mlx/base/interface.py\<close>)\<close>

text \<open>
  \<open>get_port_channel_member_ports\<close>, \<open>get_port_channel_ifindex\<close>, \<open>get_port_channel_id\<close>
  and \<open>remove_port_channel\<close> build the key of a row of \<open>fdryLinkAggregationGroupTable\<close>
  with the same statements. \<open>column\<close> is the entry of \<open>SnmpMLXMib.mib_oid_map\<close> the
  caller reads: the table of OIDs is configuration data.
\<close>

definition key_oid :: "string \<Rightarrow> int list" where
  "key_oid lag_name = map ord lag_name"

fun lag_name_oid :: "string \<Rightarrow> int list \<Rightarrow> string" where
  "lag_name_oid acc [] = acc"
| "lag_name_oid acc (item # items) = lag_name_oid (acc @ ''.'' @ py_str item) items"

definition lag_row_id :: "string \<Rightarrow> string" where
  "lag_row_id lag_name = py_str (int (length lag_name)) @ lag_name_oid [] (key_oid lag_name)"

definition lag_key_oid :: "string \<Rightarrow> string option \<Rightarrow> error + string" where
  "lag_key_oid column lag_name =
     (case lag_name of
        None \<Rightarrow> Inl (ValueError ''Port-channel name is NULL'')
      | Some name \<Rightarrow>
          if length name < 1 \<or> length name > 64
          then Inl (ValueError ''Port-channel name should be 1-64 characters'')
          else Inr (column @ ''.'' @ lag_row_id name))"

text \<open>
  \<open>get_lag_id_name_map\<close> reads the name back from the row id of a walked row: the
  text is split at the dots, the length is dropped, and each number is a character.
  \<open>pop(0)\<close> cannot fail: \<open>split\<close> returns at least one piece.
\<close>

definition row_id_lag_name :: "string \<Rightarrow> error + string" where
  "row_id_lag_name row_id =
     (case collect (map py_int (tl (split_on CHR ''.'' row_id))) of
        Inl e \<Rightarrow> Inl e
      | Inr is \<Rightarrow> collect (map chr is))"

text \<open>
  The rows of the walk are pairs of the column \<open>lag_id\<close> and the row id, in the order
  of the walk. A row is decoded before its id is compared; no matching row is \<open>None\<close>.
\<close>

fun get_lag_id_name_map :: "(int \<times> string) list \<Rightarrow> string \<Rightarrow> error + string option" where
  "get_lag_id_name_map [] lag_id = Inr None"
| "get_lag_id_name_map ((row_lag_id, value) # rows) lag_id =
     (case row_id_lag_name value of
        Inl e \<Rightarrow> Inl e
      | Inr lag_name \<Rightarrow>
          if py_str row_lag_id = lag_id then Inr (Some lag_name)
          else get_lag_id_name_map rows lag_id)"

text \<open>
  An OID index as the specification has it is a sequence of integers; its text is the
  numbers in decimal with dots between them, and \<open>oid_ints\<close> reads the text back.
\<close>

fun oid_text :: "int list \<Rightarrow> string" where
  "oid_text [] = []"
| "oid_text [i] = py_str i"
| "oid_text (i # j # js) = py_str i @ ''.'' @ oid_text (j # js)"

definition oid_ints :: "string \<Rightarrow> error + int list" where
  "oid_ints s = collect (map py_int (split_on CHR ''.'' s))"

text \<open>
  The member list of a LAG is an octet string, four octets for each member port.
  \<open>xs[k::4]\<close> is \<open>stride 4 (drop k xs)\<close>; \<open>zip\<close> stops with its shortest argument.
\<close>

function stride :: "nat \<Rightarrow> 'a list \<Rightarrow> 'a list" where
  "stride n [] = []"
| "stride n (x # xs) = x # stride n (drop (n - 1) xs)"
  by pat_completeness auto
termination
  by (relation "measure (\<lambda>(n, xs). length xs)") auto

definition m_list :: "string \<Rightarrow> string list" where
  "m_list lag_grp_list = map (\<lambda>x. zfill 2 (lstrip ''0x'' (py_hex (ord x)))) lag_grp_list"

definition hex_list :: "string list \<Rightarrow> string list" where
  "hex_list ms =
     map (\<lambda>x. ''0x'' @ x)
       (map (\<lambda>(a, b, c, d). a @ b @ c @ d)
          (zip (stride 4 ms)
             (zip (stride 4 (drop 1 ms)) (zip (stride 4 (drop 2 ms)) (stride 4 (drop 3 ms))))))"

definition member_list :: "string \<Rightarrow> error + int list" where
  "member_list lag_grp_list = collect (map py_int16 (hex_list (m_list lag_grp_list)))"

text \<open>
  The groups of four consecutive elements of a list, without the incomplete last one,
  and the number that four octets are in network byte order.
\<close>

fun quads :: "'a list \<Rightarrow> ('a \<times> 'a \<times> 'a \<times> 'a) list" where
  "quads (a # b # c # d # xs) = (a, b, c, d) # quads xs"
| "quads xs = []"

definition be32 :: "char \<Rightarrow> char \<Rightarrow> char \<Rightarrow> char \<Rightarrow> int" where
  "be32 a b c d = ((ord a * 256 + ord b) * 256 + ord c) * 256 + ord d"

section \<open>ACL parameter parsing (\<open>snmp/base/acl/aclparam_parser.py\<close>)\<close>

text \<open>
  The methods of \<open>AclParamParser\<close> take free keyword arguments and read four of them;
  in the record \<open>None\<close> is a key that is absent from the mapping. \<open>action\<close>, \<open>mirror\<close>
  and \<open>log\<close> are strings. \<open>parse_seq_id\<close> tests the truth value of \<open>seq_id\<close>, compares it
  with two integers and takes \<open>str\<close> of it, without a test of its type, so \<open>seq_id\<close> is
  any of the scalar values of Python: \<open>None\<close>, a boolean, an integer, a finite float
  (\<open>ObjFloat m e\<close> is the float \<open>m * 2 ^ e\<close>) or a string.
\<close>

datatype pyobject = ObjNone | ObjBool bool | ObjInt int | ObjFloat int int | ObjStr string

text \<open>
  The truth value of an object, and its comparison with an integer. A boolean compares
  as the integer 1 or 0 and a float by its value; in Python 2 \<open>None\<close> is below every
  number and a string is above every number.
\<close>

fun is_true :: "pyobject \<Rightarrow> bool" where
  "is_true ObjNone = False"
| "is_true (ObjBool b) = b"
| "is_true (ObjInt i) = (i \<noteq> 0)"
| "is_true (ObjFloat m e) = (m \<noteq> 0)"
| "is_true (ObjStr s) = (s \<noteq> [])"

fun greater_int :: "pyobject \<Rightarrow> int \<Rightarrow> bool" where
  "greater_int ObjNone n = False"
| "greater_int (ObjBool b) n = ((if b then 1 else 0) > n)"
| "greater_int (ObjInt i) n = (i > n)"
| "greater_int (ObjFloat m e) n =
     (if 0 \<le> e then m * 2 ^ nat e > n else m > n * 2 ^ nat (- e))"
| "greater_int (ObjStr s) n = True"

fun less_int :: "pyobject \<Rightarrow> int \<Rightarrow> bool" where
  "less_int ObjNone n = True"
| "less_int (ObjBool b) n = ((if b then 1 else 0) < n)"
| "less_int (ObjInt i) n = (i < n)"
| "less_int (ObjFloat m e) n =
     (if 0 \<le> e then m * 2 ^ nat e < n else m < n * 2 ^ nat (- e))"
| "less_int (ObjStr s) n = False"

text \<open>
  \<open>str(v)\<close>, which is also what \<open>format\<close> puts for \<open>{}\<close>. The digits that Python prints
  for a float are not modelled: \<open>float_str m e\<close> stands for them.
\<close>

fun str_of :: "(int \<Rightarrow> int \<Rightarrow> string) \<Rightarrow> pyobject \<Rightarrow> string" where
  "str_of float_str ObjNone = ''None''"
| "str_of float_str (ObjBool b) = (if b then ''True'' else ''False'')"
| "str_of float_str (ObjInt i) = py_str i"
| "str_of float_str (ObjFloat m e) = float_str m e"
| "str_of float_str (ObjStr s) = s"

record parameters =
  seq_id :: "pyobject option"
  action :: "string option"
  mirror :: "string option"
  log :: "string option"

text \<open>\<open>parameters[k]\<close>: a missing key raises \<open>KeyError\<close>.\<close>

definition getitem :: "'a option \<Rightarrow> string \<Rightarrow> error + 'a" where
  "getitem v k = (case v of None \<Rightarrow> Inl (KeyError k) | Some x \<Rightarrow> Inr x)"

text \<open>Truth value of a string (\<open>not s\<close> holds of the empty string only).\<close>

definition truthy :: "string \<Rightarrow> bool" where
  "truthy s = (s \<noteq> [])"

definition seq_id_message :: "string \<Rightarrow> string" where
  "seq_id_message v =
     ''The '' @ [CHR 0x27] @ ''seq_id'' @ [CHR 0x27] @ '' value '' @ v @
     '' is invalid.Valid range for sequence is 1 to 214748364.''"

definition parse_seq_id :: "(int \<Rightarrow> int \<Rightarrow> string) \<Rightarrow> parameters \<Rightarrow> error + string option" where
  "parse_seq_id float_str p =
     (case seq_id p of
        None \<Rightarrow> Inr None
      | Some v \<Rightarrow>
          if \<not> is_true v then Inr None
          else if greater_int v 0 \<and> less_int v 214748365 then Inr (Some (str_of float_str v))
          else Inl (ValueError (seq_id_message (str_of float_str v))))"

definition parse_mirror :: "parameters \<Rightarrow> error + string option" where
  "parse_mirror p =
     (if mirror p \<noteq> None then Inr None
      else case getitem (mirror p) ''mirror'' of
        Inl e \<Rightarrow> Inl e
      | Inr m \<Rightarrow>
          if \<not> truthy m then Inr None
          else if (case action p of None \<Rightarrow> False | Some a \<Rightarrow> truthy a \<and> a \<noteq> ''permit'')
          then Inl (ValueError '' Mirror keyword is applicable only for ACL permit clauses'')
          else if log p \<noteq> None then Inr (Some ''mirror'')
          else case getitem (log p) ''log'' of
            Inl e \<Rightarrow> Inl e
          | Inr l \<Rightarrow>
              if \<not> truthy l then Inr (Some ''mirror'')
              else Inl (ValueError ''log and mirror keywords can not be used together''))"

definition parse_log :: "parameters \<Rightarrow> error + string option" where
  "parse_log p =
     (if log p \<noteq> None then Inr None
      else case getitem (log p) ''log'' of
        Inl e \<Rightarrow> Inl e
      | Inr l \<Rightarrow>
          if \<not> truthy l then Inr None
          else if (case mirror p of None \<Rightarrow> False | Some m \<Rightarrow> m \<noteq> ''False'')
          then Inl (ValueError ''Error: mirror and log keywords can not be used together'')
          else if l = ''True'' then Inr (Some ''log'')
          else Inr None)"

section \<open>Scraping of CLI output (\<open>snmp/mlx/base/interface.py\<close>)\<close>

text \<open>
  \<open>sub in s\<close> on strings, and \<open>s.split()\<close>: the words between runs of blanks, none
  of them empty.
\<close>

definition starts_with :: "string \<Rightarrow> string \<Rightarrow> bool" where
  "starts_with sub s = (take (length sub) s = sub)"

fun py_in :: "string \<Rightarrow> string \<Rightarrow> bool" where
  "py_in sub [] = (sub = [])"
| "py_in sub (c # cs) = (starts_with sub (c # cs) \<or> py_in sub cs)"

fun py_split :: "string \<Rightarrow> string list" where
  "py_split [] = []"
| "py_split (c # cs) =
     (if is_space c then py_split cs
      else case py_split cs of
        [] \<Rightarrow> [[c]]
      | w # ws \<Rightarrow> (case cs of
          [] \<Rightarrow> [[c]]
        | d # ds \<Rightarrow> if is_space d then [c] # w # ws else (c # w) # ws))"

text \<open>
  The device is reached through one callback. Its answers are the data of the model:
  the text of a CLI command and the value of an SNMP object. An SNMP value is an
  integer or an octet string; \<open>str\<close> of it is \<open>snmp_str\<close>.
\<close>

datatype snmp_value = SnmpInt int | SnmpStr string

fun snmp_str :: "snmp_value \<Rightarrow> string" where
  "snmp_str (SnmpInt i) = py_str i"
| "snmp_str (SnmpStr s) = s"

text \<open>
  \<open>get_port_channel_list\<close> scans the lines of \<open>show lag brief\<close>. \<open>start_parse\<close> is set
  by a line that contains \<open>Deploy\<close> and never reset; the scan ends at the first empty
  line after that. A row is \<open>(lag_name, lag_type, primary_port, deploy)\<close>; reading a
  field that the line does not have raises \<open>IndexError\<close>.
\<close>

type_synonym po = "string \<times> string \<times> string \<times> bool"

fun lag_lines :: "bool \<Rightarrow> po list \<Rightarrow> string list \<Rightarrow> error + po list" where
  "lag_lines start_parse po_list [] = Inr po_list"
| "lag_lines start_parse po_list (item # items) =
     (if py_in ''Deploy'' item then lag_lines True po_list items
      else if start_parse then
        (if item = [] then Inr po_list
         else let lag_str_list = py_split item in
           if length lag_str_list < 5 then Inl IndexError
           else lag_lines start_parse
                  (po_list @ [(lag_str_list ! 0, lag_str_list ! 1, lag_str_list ! 4,
                               lag_str_list ! 2 = ''Y'')])
                  items)
      else lag_lines start_parse po_list items)"

text \<open>The row that a line with at least five fields gives.\<close>

definition lag_row :: "string \<Rightarrow> po" where
  "lag_row item =
     (py_split item ! 0, py_split item ! 1, py_split item ! 4, py_split item ! 2 = ''Y'')"

definition get_port_channel_list :: "(string \<Rightarrow> string) \<Rightarrow> error + po list" where
  "get_port_channel_list cli_get =
     lag_lines False [] (split_on CHR 0x0A (cli_get ''show lag brief''))"

text \<open>
  \<open>get_lacp_member_info\<close> scans the lines of \<open>show lacp lag_name <name>\<close> and collects
  a dictionary, here the list of its items; \<open>update\<close> replaces the value of a key that
  is there and appends a new key. A line that contains \<open>Error\<close> raises \<open>ValueError\<close>
  with the line as its message.
\<close>

datatype pyval = PStr string | PBool bool

fun dict_update :: "(string \<times> pyval) list \<Rightarrow> (string \<times> pyval) list \<Rightarrow> (string \<times> pyval) list" where
  "dict_update d [] = d"
| "dict_update d ((k, v) # kvs) = dict_update (AList.update k v d) kvs"

fun lacp_lines ::
  "string \<Rightarrow> (string \<times> pyval) list \<Rightarrow> string list \<Rightarrow> error + (string \<times> pyval) list" where
  "lacp_lines intf_name interface_info [] = Inr interface_info"
| "lacp_lines intf_name interface_info (line # lines) =
     (if py_in ''Error'' line then Inl (ValueError line)
      else if py_in intf_name line then
        (let port_info = py_split line in
         if length port_info < 2 then Inl IndexError
         else if port_info ! 1 = ''ACTR'' then
           (if length port_info < 11 then Inl IndexError
            else lacp_lines intf_name
                   (dict_update interface_info
                      [(''int_name'', PStr intf_name),
                       (''actor_oper_key'', PStr (port_info ! 4)),
                       (''actor_agg'', PBool (port_info ! 7 = ''Agg'')),
                       (''actor_syn'', PBool (port_info ! 8 = ''Syn'')),
                       (''actor_coll'', PBool (port_info ! 9 = ''Col'')),
                       (''actor_dist'', PBool (port_info ! 10 = ''Dis'')),
                       (''actor_activity'', PBool (port_info ! 5 = ''Yes''))])
                   lines)
         else if port_info ! 1 = ''PRTR'' then
           (if length port_info < 11 then Inl IndexError
            else lacp_lines intf_name
                   (dict_update interface_info
                      [(''part_oper_key'', PStr (port_info ! 4)),
                       (''part_agg'', PBool (port_info ! 7 = ''Agg'')),
                       (''part_syn'', PBool (port_info ! 8 = ''Syn'')),
                       (''part_coll'', PBool (port_info ! 9 = ''Col'')),
                       (''part_dist'', PBool (port_info ! 10 = ''Dis'')),
                       (''part_activity'', PBool (port_info ! 5 = ''Yes''))])
                   lines)
         else
           (if length port_info < 5 then Inl IndexError
            else lacp_lines intf_name
                   (dict_update interface_info
                      [(''rx_count'', PStr (port_info ! 2)),
                       (''tx_count'', PStr (port_info ! 4))])
                   lines))
      else lacp_lines intf_name interface_info lines)"

definition get_lacp_member_info ::
  "(string \<Rightarrow> string) \<Rightarrow> string \<Rightarrow> string \<Rightarrow> error + (string \<times> pyval) list" where
  "get_lacp_member_info cli_get lag_name intf_name =
     lacp_lines intf_name []
       (split_on CHR 0x0A (cli_get (''show lacp lag_name '' @ lag_name)))"

section \<open>Pattern matching on CLI output: \<open>get_ip_addresses\<close>\<close>

text \<open>
  The function returns an address, \<open>False\<close>, or nothing at all (\<open>None\<close>) for a
  version that is neither 4 nor 6.
\<close>

datatype ip_result = Address string | PyFalse | PyNone

text \<open>
  The keyword arguments that are read, typed as the docstring gives them; \<open>None\<close> is
  an absent key, for which \<open>kwargs.pop\<close> raises \<open>KeyError\<close>.
\<close>

record ip_kwargs =
  ip_int_type :: "string option"
  ip_name :: "string option"
  ip_version :: "int option"

definition lower_char :: "char \<Rightarrow> char" where
  "lower_char c =
     (let n = (of_char c :: nat) in if 65 \<le> n \<and> n \<le> 90 then char_of (n + 32) else c)"

definition py_lower :: "string \<Rightarrow> string" where
  "py_lower s = map lower_char s"

text \<open>
  \<open>re.search\<close> with a pattern of plain characters is the substring test \<open>py_in\<close>, and
  \<open>re.split(' ', s)\<close> is \<open>split_on\<close>. The two patterns with groups are written out.

  \<open>(.+) \[Preferred\],  subnet is (.+)\<close>: a dot matches any character but a newline,
  so a match lies in one line, and the leftmost match starts at the beginning of the
  first line that has one. The first group is greedy: it ends at the last place of
  that line where the fixed text follows and at least one more character comes
  after it; the second group is the rest of the line.
\<close>

definition preferred_literal :: string where
  "preferred_literal = '' [Preferred],  subnet is ''"

definition match_preferred_line :: "string \<Rightarrow> (string \<times> string) option" where
  "match_preferred_line line =
     (let js = filter (\<lambda>j. starts_with preferred_literal (drop j line)
                            \<and> j + length preferred_literal < length line)
                 [1..<length line]
      in if js = [] then None
         else Some (take (last js) line, drop (last js + length preferred_literal) line))"

fun first_some :: "('a \<Rightarrow> 'b option) \<Rightarrow> 'a list \<Rightarrow> 'b option" where
  "first_some f [] = None"
| "first_some f (x # xs) = (case f x of None \<Rightarrow> first_some f xs | Some y \<Rightarrow> Some y)"

definition search_preferred :: "string \<Rightarrow> (string \<times> string) option" where
  "search_preferred s = first_some match_preferred_line (split_on CHR 0x0A s)"

text \<open>
  \<open>::/(.+)\<close> on a text without a newline: the group is what follows the first \<open>::/\<close>,
  and there is no match when nothing follows it.
\<close>

fun after_first :: "string \<Rightarrow> string \<Rightarrow> string option" where
  "after_first pat [] = None"
| "after_first pat (c # cs) =
     (if starts_with pat (c # cs) then Some (drop (length pat) (c # cs))
      else after_first pat cs)"

definition search_subnet :: "string \<Rightarrow> string option" where
  "search_subnet s =
     (case after_first ''::/'' s of
        None \<Rightarrow> None
      | Some r \<Rightarrow> if r = [] then None else Some r)"

text \<open>\<open>m.group(k)\<close> on a search that found nothing raises \<open>AttributeError\<close>.\<close>

definition get_ip_addresses :: "(string \<Rightarrow> string) \<Rightarrow> ip_kwargs \<Rightarrow> error + ip_result" where
  "get_ip_addresses callback kwargs =
     (case ip_int_type kwargs of
        None \<Rightarrow> Inl (KeyError ''int_type'')
      | Some t \<Rightarrow>
     (case ip_name kwargs of
        None \<Rightarrow> Inl (KeyError ''name'')
      | Some nm \<Rightarrow>
     (case ip_version kwargs of
        None \<Rightarrow> Inl (KeyError ''version'')
      | Some version \<Rightarrow>
          let int_type = py_lower t in
          if version = 4 then
            (let cli_output = callback (''show ip inter'' @ '' '' @ int_type @ '' '' @ nm
                                          @ '' | include address'')
             in if py_in ''ip address:'' cli_output then
                  (let ip = split_on CHR '' '' cli_output
                   in if length ip < 5 then Inl IndexError else Inr (Address (ip ! 4)))
                else Inr PyFalse)
          else if version = 6 then
            (let cli_output = callback (''show ipv6 inter'' @ '' '' @ int_type @ '' '' @ nm)
             in if py_in ''IPv6 is enabled'' cli_output then
                  (case search_preferred cli_output of
                     None \<Rightarrow> Inl AttributeError
                   | Some (g1, g2) \<Rightarrow>
                       (case search_subnet g2 of
                          None \<Rightarrow> Inl AttributeError
                        | Some subnet \<Rightarrow> Inr (Address (py_strip g1 @ ''/'' @ subnet))))
                else Inr PyFalse)
          else Inr PyNone)))"

section \<open>The port-channel aggregator: \<open>port_channels\<close>\<close>

text \<open>
  What is outside the source file is a parameter: the answers of the device to the
  callback, the two tables of OIDs (\<open>SnmpMib.mib_oid_map\<close> and
  \<open>SnmpMLXMib.mib_oid_map\<close>), \<open>mac_address\<close> of the SNMP library, and
  \<open>get_interface_id_name_mapping\<close> of the base class, whose dictionary is given as
  the list of its items in the order the loop visits them.
\<close>

record collaborators =
  callback_cli :: "string \<Rightarrow> string"
  callback_snmp :: "string \<Rightarrow> snmp_value"
  mib_oid_map :: "string \<Rightarrow> string"
  mlx_mib_oid_map :: "string \<Rightarrow> string"
  mac_address :: "snmp_value \<Rightarrow> string"
  get_interface_id_name_mapping :: "int list \<Rightarrow> (int \<times> string) list"

text \<open>
  A run of a function is the list of the requests it has sent through the callback,
  in order, and its outcome. After an exception nothing more is sent.
\<close>

datatype request = CliGet string | SnmpGet string

type_synonym 'a run = "request list \<times> (error + 'a)"

definition result :: "'a \<Rightarrow> 'a run" where
  "result x = ([], Inr x)"

definition raise :: "error \<Rightarrow> 'a run" where
  "raise e = ([], Inl e)"

definition lift :: "error + 'a \<Rightarrow> 'a run" where
  "lift r = ([], r)"

definition and_then :: "'a run \<Rightarrow> ('a \<Rightarrow> 'b run) \<Rightarrow> 'b run" where
  "and_then m f =
     (case snd m of
        Inl e \<Rightarrow> (fst m, Inl e)
      | Inr x \<Rightarrow> (fst m @ fst (f x), snd (f x)))"

fun for_each :: "('s \<Rightarrow> 'a \<Rightarrow> 's run) \<Rightarrow> 's \<Rightarrow> 'a list \<Rightarrow> 's run" where
  "for_each step st [] = result st"
| "for_each step st (x # xs) =
     (case snd (step st x) of
        Inl e \<Rightarrow> (fst (step st x), Inl e)
      | Inr st' \<Rightarrow> (fst (step st x) @ fst (for_each step st' xs), snd (for_each step st' xs)))"

definition snmp_callback :: "collaborators \<Rightarrow> string \<Rightarrow> snmp_value run" where
  "snmp_callback c oid = ([SnmpGet oid], Inr (callback_snmp c oid))"

definition cli_lag_brief :: "collaborators \<Rightarrow> po list run" where
  "cli_lag_brief c = ([CliGet ''show lag brief''], get_port_channel_list (callback_cli c))"

definition cli_lacp_member_info ::
  "collaborators \<Rightarrow> string \<Rightarrow> string \<Rightarrow> (string \<times> pyval) list run" where
  "cli_lacp_member_info c lag_name intf_name =
     ([CliGet (''show lacp lag_name '' @ lag_name)],
      get_lacp_member_info (callback_cli c) lag_name intf_name)"

text \<open>The three getters on \<open>fdryLinkAggregationGroupTable\<close>.\<close>

definition get_port_channel_ifindex :: "collaborators \<Rightarrow> string option \<Rightarrow> snmp_value run" where
  "get_port_channel_ifindex c lag_name =
     (case lag_key_oid (mlx_mib_oid_map c ''fdryLinkAggregationGroupIfIndex'') lag_name of
        Inl e \<Rightarrow> raise e
      | Inr lag_ifindex_oid \<Rightarrow> snmp_callback c lag_ifindex_oid)"

definition get_port_channel_id :: "collaborators \<Rightarrow> string option \<Rightarrow> snmp_value run" where
  "get_port_channel_id c lag_name =
     (case lag_key_oid (mlx_mib_oid_map c ''fdryLinkAggregationGroupId'') lag_name of
        Inl e \<Rightarrow> raise e
      | Inr lag_id_oid \<Rightarrow> snmp_callback c lag_id_oid)"

text \<open>Iterating over a value that is not a string raises \<open>TypeError\<close>.\<close>

definition get_port_channel_member_ports ::
  "collaborators \<Rightarrow> string option \<Rightarrow> (int \<times> string) list run" where
  "get_port_channel_member_ports c lag_name =
     (case lag_key_oid (mlx_mib_oid_map c ''fdryLinkAggregationGroupIfList'') lag_name of
        Inl e \<Rightarrow> raise e
      | Inr lag_grp_list_oid \<Rightarrow>
          and_then (snmp_callback c lag_grp_list_oid) (\<lambda>lag_grp_list.
            case lag_grp_list of
              SnmpInt i \<Rightarrow> raise TypeError
            | SnmpStr octets \<Rightarrow>
                and_then (lift (member_list octets)) (\<lambda>members.
                  result (get_interface_id_name_mapping c members))))"

text \<open>
  The LACP fields of a dynamic, deployed LAG: seven \<open>snmp-get\<close> requests on the
  \<open>dot3adAgg\<close> objects of the LAG's interface index, in the order of the source. The
  fields are, in this order: system priority, actor system id, partner operational
  priority, partner system id, admin key, operational key, partner operational key.
\<close>

type_synonym lacp_fields =
  "snmp_value \<times> string \<times> snmp_value \<times> string \<times> snmp_value \<times> snmp_value \<times> snmp_value"

definition lacp_oid :: "collaborators \<Rightarrow> string \<Rightarrow> string \<Rightarrow> string" where
  "lacp_oid c object lag_ifindex = mib_oid_map c object @ ''.'' @ lag_ifindex"

definition fetch_lacp_fields :: "collaborators \<Rightarrow> string \<Rightarrow> lacp_fields run" where
  "fetch_lacp_fields c lag_ifindex =
     and_then (snmp_callback c (lacp_oid c ''dot3adAggActorSystemPriority'' lag_ifindex))
       (\<lambda>system_priority.
     and_then (snmp_callback c (lacp_oid c ''dot3adAggActorSystemID'' lag_ifindex))
       (\<lambda>actor_sys_id.
     and_then (snmp_callback c (lacp_oid c ''dot3adAggPartnerSystemPriority'' lag_ifindex))
       (\<lambda>partner_oper_priority.
     and_then (snmp_callback c (lacp_oid c ''dot3adAggPartnerSystemID'' lag_ifindex))
       (\<lambda>partner_sys_id.
     and_then (snmp_callback c (lacp_oid c ''dot3adAggActorAdminKey'' lag_ifindex))
       (\<lambda>admin_key.
     and_then (snmp_callback c (lacp_oid c ''dot3adAggActorOperKey'' lag_ifindex))
       (\<lambda>oper_key.
     and_then (snmp_callback c (lacp_oid c ''dot3adAggPartnerOperKey'' lag_ifindex))
       (\<lambda>partner_oper_key.
     result (system_priority, mac_address c actor_sys_id, partner_oper_priority,
             mac_address c partner_sys_id, admin_key, oper_key, partner_oper_key))))))))"

definition empty_lacp_fields :: lacp_fields where
  "empty_lacp_fields =
     (SnmpStr [], [], SnmpStr [], [], SnmpStr [], SnmpStr [], SnmpStr [])"

text \<open>
  The loop over the member ports. \<open>d[k1] is True and d[k2] is True and ...\<close> reads the
  keys from the left and stops at the first value that is not \<open>True\<close>; a key that is
  read and missing raises \<open>KeyError\<close>.
\<close>

definition dict_get :: "(string \<times> pyval) list \<Rightarrow> string \<Rightarrow> error + pyval" where
  "dict_get d k = (case map_of d k of None \<Rightarrow> Inl (KeyError k) | Some v \<Rightarrow> Inr v)"

fun all_true :: "(string \<times> pyval) list \<Rightarrow> string list \<Rightarrow> error + bool" where
  "all_true d [] = Inr True"
| "all_true d (k # ks) =
     (case dict_get d k of
        Inl e \<Rightarrow> Inl e
      | Inr v \<Rightarrow> if v = PBool True then all_true d ks else Inr False)"

definition int_item :: "(string \<times> pyval) list \<Rightarrow> string \<Rightarrow> error + int" where
  "int_item d k =
     (case dict_get d k of
        Inl e \<Rightarrow> Inl e
      | Inr (PStr s) \<Rightarrow> py_int s
      | Inr (PBool b) \<Rightarrow> Inr (if b then 1 else 0))"

definition strip_chars :: "string \<Rightarrow> string \<Rightarrow> string" where
  "strip_chars chars s =
     rev (dropWhile (\<lambda>c. c \<in> set chars) (rev (dropWhile (\<lambda>c. c \<in> set chars) s)))"

record port_channel_interface =
  rbridge_id :: int
  interface_type :: string
  interface_name :: string
  actor_port :: int
  sync :: string

text \<open>
  The state of the loop: the interface list, \<open>ready_agg\<close>, \<open>tx_link_count\<close> and
  \<open>rx_link_count\<close>.
\<close>

type_synonym member_state = "port_channel_interface list \<times> int \<times> int \<times> int"

definition member_lacp ::
  "(string \<times> pyval) list \<Rightarrow> error + (bool \<times> bool \<times> bool \<times> bool)" where
  "member_lacp port =
     (case all_true port [''actor_agg'', ''part_agg''] of
        Inl e \<Rightarrow> Inl e
      | Inr agg \<Rightarrow>
     (case (if agg then all_true port [''actor_coll'', ''part_coll'', ''actor_dist'', ''part_dist'']
            else Inr False) of
        Inl e \<Rightarrow> Inl e
      | Inr in_sync \<Rightarrow>
     (case int_item port ''tx_count'' of
        Inl e \<Rightarrow> Inl e
      | Inr tx \<Rightarrow>
     (case int_item port ''rx_count'' of
        Inl e \<Rightarrow> Inl e
      | Inr rx \<Rightarrow> Inr (agg, in_sync, tx > 0, rx > 0)))))"

definition member_step ::
  "collaborators \<Rightarrow> string \<Rightarrow> bool \<Rightarrow> member_state \<Rightarrow> int \<times> string \<Rightarrow> member_state run" where
  "member_step c lag_name lacp st entry =
     (case st of (interface_list, ready_agg, tx_link_count, rx_link_count) \<Rightarrow>
      case entry of (item, ifname) \<Rightarrow>
        let int_name = strip_chars ''ethernet'' ifname in
        if lacp then
          and_then (cli_lacp_member_info c lag_name int_name) (\<lambda>port.
          and_then (lift (member_lacp port)) (\<lambda>(agg, in_sync, tx, rx).
            result
              (interface_list @
                 [\<lparr>rbridge_id = 0, interface_type = ''ethernet'', interface_name = int_name,
                   actor_port = item, sync = (if in_sync then ''1'' else ''0'')\<rparr>],
               (if agg then 1 else ready_agg),
               (if tx then tx_link_count + 1 else tx_link_count),
               (if rx then rx_link_count + 1 else rx_link_count))))
        else
          result
            (interface_list @
               [\<lparr>rbridge_id = 0, interface_type = ''ethernet'', interface_name = int_name,
                 actor_port = item, sync = ''0''\<rparr>],
             ready_agg, tx_link_count, rx_link_count))"

text \<open>The dictionary of one port channel, and the body of the loop that builds it.\<close>

record lag_record =
  po_interface_name :: string
  interfaces :: "port_channel_interface list"
  aggregator_id :: string
  aggregator_type :: string
  is_vlag :: bool
  aggregator_mode :: string
  system_priority :: snmp_value
  actor_system_id :: string
  partner_oper_priority :: snmp_value
  partner_system_id :: string
  admin_key :: snmp_value
  oper_key :: snmp_value
  partner_oper_key :: snmp_value
  rx_link_count :: int
  tx_link_count :: int
  individual_agg :: int
  ready_agg :: int

definition port_channel :: "collaborators \<Rightarrow> po \<Rightarrow> lag_record run" where
  "port_channel c po =
     (case po of (lag_name, mode, primary_port, deploy) \<Rightarrow>
      and_then (get_port_channel_ifindex c (Some lag_name)) (\<lambda>ifindex.
      and_then (get_port_channel_id c (Some lag_name)) (\<lambda>agg_id.
      and_then (if mode = ''dynamic'' \<and> deploy then fetch_lacp_fields c (snmp_str ifindex)
                else result empty_lacp_fields) (\<lambda>fields.
      and_then (get_port_channel_member_ports c (Some lag_name)) (\<lambda>ifid_name.
      and_then (for_each (member_step c lag_name (mode = ''dynamic'' \<and> deploy))
                  ([], 0, 0, 0) ifid_name) (\<lambda>st.
        case fields of (f1, f2, f3, f4, f5, f6, f7) \<Rightarrow>
        case st of (interface_list, ready, tx, rx) \<Rightarrow>
          result
            \<lparr>po_interface_name = lag_name, interfaces = interface_list,
              aggregator_id = snmp_str agg_id, aggregator_type = ''standard'',
              is_vlag = False, aggregator_mode = mode,
              system_priority = f1, actor_system_id = f2, partner_oper_priority = f3,
              partner_system_id = f4, admin_key = f5, oper_key = f6, partner_oper_key = f7,
              rx_link_count = rx, tx_link_count = tx, individual_agg = 0,
              ready_agg = ready\<rparr>))))))"

definition port_channels :: "collaborators \<Rightarrow> lag_record list run" where
  "port_channels c =
     and_then (cli_lag_brief c) (\<lambda>po_list.
       for_each (\<lambda>res po. and_then (port_channel c po) (\<lambda>r. result (res @ [r]))) [] po_list)"

text \<open>
  The OID that a getter asks for when the name has 1 to 64 characters, and the
  interface entry of a member port of a LAG without LACP.
\<close>

definition table_oid :: "collaborators \<Rightarrow> string \<Rightarrow> string \<Rightarrow> string" where
  "table_oid c column lag_name = mlx_mib_oid_map c column @ ''.'' @ lag_row_id lag_name"

definition plain_member :: "int \<times> string \<Rightarrow> port_channel_interface" where
  "plain_member entry =
     \<lparr>rbridge_id = 0, interface_type = ''ethernet'',
      interface_name = strip_chars ''ethernet'' (snd entry), actor_port = fst entry,
      sync = ''0''\<rparr>"

text \<open>
  The status of a member port of a LAG with LACP, as the loop reads it: the scrape of
  \<open>show lacp lag_name\<close> for the interface name of the member, then the four truth
  values \<open>(agg, in_sync, tx, rx)\<close> of \<open>member_lacp\<close>; and the interface entry that the
  loop appends for a member with this status.
\<close>

definition member_status ::
  "collaborators \<Rightarrow> string \<Rightarrow> int \<times> string \<Rightarrow> error + (bool \<times> bool \<times> bool \<times> bool)" where
  "member_status c lag_name entry =
     (case get_lacp_member_info (callback_cli c) lag_name (strip_chars ''ethernet'' (snd entry)) of
        Inl e \<Rightarrow> Inl e
      | Inr port \<Rightarrow> member_lacp port)"

definition lacp_member :: "int \<times> string \<Rightarrow> bool \<times> bool \<times> bool \<times> bool \<Rightarrow> port_channel_interface" where
  "lacp_member entry status =
     \<lparr>rbridge_id = 0, interface_type = ''ethernet'',
      interface_name = strip_chars ''ethernet'' (snd entry), actor_port = fst entry,
      sync = (if fst (snd status) then ''1'' else ''0'')\<rparr>"

text \<open>
  A device for the end-to-end example of the specification: the LAG \<open>po50\<close> of the
  given mode, deployed, with two member ports (interface indices 65 and 66), interface
  index 1234 and LAG id 50.
\<close>

definition stub_device :: "string \<Rightarrow> collaborators" where
  "stub_device mode =
     \<lparr>callback_cli = (\<lambda>cmd.
        if cmd = ''show lag brief''
        then ''LAG Type Deploy Trunk Intf\<newline>po50 '' @ mode @ '' Y 1 2/1\<newline>\<newline>''
        else ''2/1 ACTR 1 2 3 Yes 6 Agg Syn Col Dis\<newline>2/1 PRTR 1 2 3 Yes 6 Agg Syn Col Dis\<newline>2/1 rx 5 tx 7\<newline>2/2 ACTR 1 2 3 Yes 6 Agg Syn No Dis\<newline>2/2 PRTR 1 2 3 Yes 6 Agg Syn Col Dis\<newline>2/2 rx 0 tx 7''),
      callback_snmp = (\<lambda>oid.
        if take 7 oid = ''IfList.''
        then SnmpStr [CHR 0x00, CHR 0x00, CHR 0x00, CHR 0x41, CHR 0x00, CHR 0x00, CHR 0x00, CHR 0x42]
        else if take 8 oid = ''IfIndex.'' then SnmpInt 1234
        else if take 3 oid = ''Id.'' then SnmpInt 50
        else SnmpInt 32768),
      mib_oid_map = (\<lambda>object. object),
      mlx_mib_oid_map = (\<lambda>object. drop 24 object),
      mac_address = (\<lambda>v. ''00:24:38:9e:2a:00''),
      get_interface_id_name_mapping =
        map (\<lambda>i. (i, if i = 65 then ''ethernet2/1'' else ''ethernet2/2''))\<rparr>"

section \<open>Auxiliary facts\<close>


lemma lt16_cases: "d < 16 \<Longrightarrow> d \<in> {0,1,2,3,4,5,6,7,8,9,10,11,12,13,14,15::nat}"
  by (simp only: insert_iff empty_iff) presburger

lemma digit_val_digit_char_16: "d < 16 \<Longrightarrow> digit_val 16 (digit_char d) = Some d"
  by (drule lt16_cases) (auto simp: digit_val_def digit_char_def)

lemma digit_val_digit_char_10: "d < 10 \<Longrightarrow> digit_val 10 (digit_char d) = Some d"
proof -
  assume a: "d < 10"
  then have "d < 16" by simp
  from lt16_cases [OF this] a show ?thesis
    by (auto simp: digit_val_def digit_char_def)
qed

lemma digit_char_plain:
  "d < 16 \<Longrightarrow> \<not> is_space (digit_char d) \<and> digit_char d \<notin> set ''.-+x''"
  by (drule lt16_cases) (auto simp: is_space_def digit_char_def)

lemma digit_char_nonzero:
  "d < 16 \<Longrightarrow> 0 < d \<Longrightarrow> digit_char d \<noteq> CHR ''0''"
  by (drule lt16_cases) (auto simp: digit_char_def)

lemma digits_val_append:
  "digits_val b acc (xs @ ys) = (case digits_val b acc xs of None \<Rightarrow> None | Some a \<Rightarrow> digits_val b a ys)"
  by (induction xs arbitrary: acc) (auto split: option.splits)

lemma digits_val_str_nat:
  "digits_val 10 acc (str_nat n) = Some (acc * 10 ^ length (str_nat n) + n)"
proof (induction n arbitrary: acc rule: str_nat.induct)
  case (1 n)
  show ?case
  proof (cases "n < 10")
    case True
    then show ?thesis
      by (subst (1 2) str_nat.simps) (simp add: digit_val_digit_char_10)
  next
    case False
    then have "digits_val 10 acc (str_nat (n div 10)) = Some (acc * 10 ^ length (str_nat (n div 10)) + n div 10)"
      using 1 by simp
    with False show ?thesis
      by (subst (1 2) str_nat.simps) (simp add: digits_val_append digit_val_digit_char_10 algebra_simps)
  qed
qed

lemma str_nat_chars: "c \<in> set (str_nat n) \<Longrightarrow> \<exists>d<10. c = digit_char d"
proof (induction n rule: str_nat.induct)
  case (1 n)
  show ?case
  proof (cases "n < 10")
    case True
    with 1(2) show ?thesis by (subst (asm) str_nat.simps) auto
  next
    case False
    from 1(2) False have "c \<in> set (str_nat (n div 10)) \<or> c = digit_char (n mod 10)"
      by (subst (asm) str_nat.simps) auto
    then show ?thesis
    proof
      assume "c \<in> set (str_nat (n div 10))"
      with 1(1) False show ?thesis by simp
    next
      assume "c = digit_char (n mod 10)"
      moreover have "n mod 10 < 10" by simp
      ultimately show ?thesis by blast
    qed
  qed
qed

lemma str_nat_nonempty: "str_nat n \<noteq> []"
  by (subst str_nat.simps) simp

lemma str_nat_plain: "c \<in> set (str_nat n) \<Longrightarrow> \<not> is_space c \<and> c \<notin> set ''.-+x''"
proof -
  assume "c \<in> set (str_nat n)"
  then obtain d where "d < 10" "c = digit_char d" using str_nat_chars by blast
  then show ?thesis using digit_char_plain [of d] by simp
qed

lemma dropWhile_none: "\<forall>c\<in>set s. \<not> P c \<Longrightarrow> dropWhile P s = s"
  by (cases s) auto

lemma py_strip_plain: "\<forall>c\<in>set s. \<not> is_space c \<Longrightarrow> py_strip s = s"
proof -
  assume a: "\<forall>c\<in>set s. \<not> is_space c"
  then have "dropWhile is_space s = s" by (rule dropWhile_none)
  moreover from a have "\<forall>c\<in>set (rev s). \<not> is_space c" by simp
  then have "dropWhile is_space (rev s) = rev s" by (rule dropWhile_none)
  ultimately show ?thesis by (simp add: py_strip_def)
qed

lemma py_int_str_nat: "py_int (str_nat n) = Inr (int n)"
proof -
  have s: "py_strip (str_nat n) = str_nat n"
    using str_nat_plain by (intro py_strip_plain) blast
  obtain c cs where cs: "str_nat n = c # cs"
    using str_nat_nonempty [of n] by (cases "str_nat n") auto
  then have "c \<in> set (str_nat n)" by simp
  then have "c \<noteq> CHR ''-''" "c \<noteq> CHR ''+''" using str_nat_plain [of c n] by auto
  moreover have "py_strip (c # cs) = c # cs" using s by (simp only: cs)
  ultimately have "py_int (str_nat n) = unsigned_literal 10 (c # cs)"
    by (simp add: py_int_def signed_literal_def cs)
  also have "\<dots> = unsigned_literal 10 (str_nat n)" by (simp only: cs)
  also have "\<dots> = Inr (int n)"
    using digits_val_str_nat [of 0 n] str_nat_nonempty [of n]
    by (simp add: unsigned_literal_def)
  finally show ?thesis .
qed

lemma py_int_py_str: "0 \<le> i \<Longrightarrow> py_int (py_str i) = Inr i"
  using py_int_str_nat [of "nat i"] by (simp add: py_str_def)

lemma ord_range: "0 \<le> ord c \<and> ord c < 256"
proof -
  have "ord c = int (of_char c)" by (simp add: ord_def of_nat_of_char)
  moreover have "(of_char c :: nat) < 256" by simp
  ultimately show ?thesis by simp
qed

lemma chr_ord: "chr (ord c) = Inr c"
  using ord_range [of c] by (simp add: chr_def) (simp add: ord_def)


lemma py_str_plain: "c \<in> set (py_str i) \<Longrightarrow> c \<noteq> CHR ''.''"
  using str_nat_plain by (auto simp: py_str_def split: if_splits)

lemma lag_name_oid_eq:
  "lag_name_oid acc items = acc @ concat (map (\<lambda>i. ''.'' @ py_str i) items)"
  by (induction items arbitrary: acc) auto

lemma oid_text_Cons: "oid_text (i # items) = py_str i @ concat (map (\<lambda>i. ''.'' @ py_str i) items)"
  by (induction items arbitrary: i) auto

lemma lag_row_id_text: "lag_row_id name = oid_text (int (length name) # map ord name)"
  by (simp add: lag_row_id_def lag_name_oid_eq oid_text_Cons key_oid_def)

lemma split_on_nonempty: "split_on sep s \<noteq> []"
  by (induction s) (auto split: list.splits)

lemma split_on_plain: "sep \<notin> set w \<Longrightarrow> split_on sep w = [w]"
  by (induction w) auto

lemma split_on_piece: "sep \<notin> set w \<Longrightarrow> split_on sep (w @ sep # rest) = w # split_on sep rest"
  by (induction w) auto

lemma split_on_oid_text: "split_on CHR ''.'' (oid_text (i # items)) = map py_str (i # items)"
proof (induction items arbitrary: i)
  case Nil
  then show ?case using py_str_plain [of _ i] by (auto intro: split_on_plain)
next
  case (Cons j js)
  have "CHR ''.'' \<notin> set (py_str i)" using py_str_plain [of _ i] by blast
  then show ?case using Cons [of j] by (simp add: split_on_piece)
qed

lemma collect_py_int: "\<forall>i\<in>set items. 0 \<le> i \<Longrightarrow> collect (map py_int (map py_str items)) = Inr items"
  by (induction items) (auto simp: py_int_py_str)

lemma collect_chr: "collect (map chr (map ord name)) = Inr name"
  by (induction name) (auto simp: chr_ord)

lemma ord_nonneg: "0 \<le> ord c"
  using ord_range by blast

lemma oid_ints_row_id: "oid_ints (lag_row_id name) = Inr (int (length name) # map ord name)"
proof -
  have "\<forall>i\<in>set (int (length name) # map ord name). 0 \<le> i"
    using ord_nonneg by auto
  then show ?thesis
    unfolding oid_ints_def lag_row_id_text split_on_oid_text by (rule collect_py_int)
qed

lemma row_id_lag_name_round: "row_id_lag_name (lag_row_id name) = Inr name"
proof -
  have "\<forall>i\<in>set (map ord name). 0 \<le> i" using ord_nonneg by auto
  then have b: "collect (map py_int (map py_str (map ord name))) = Inr (map ord name)"
    by (rule collect_py_int)
  have a: "tl (split_on CHR ''.'' (lag_row_id name)) = map py_str (map ord name)"
    unfolding lag_row_id_text split_on_oid_text by (simp only: list.map list.sel)
  show ?thesis
    unfolding row_id_lag_name_def a b by (simp only: sum.case collect_chr)
qed


lemma stride4_Cons4: "stride 4 (a # b # c # d # xs) = a # stride 4 xs"
  by simp

lemma zip_stride_quads:
  "zip (stride 4 xs) (zip (stride 4 (drop 1 xs)) (zip (stride 4 (drop 2 xs)) (stride 4 (drop 3 xs))))
     = quads xs"
  by (induction xs rule: quads.induct) simp_all

lemma quads_map: "quads (map f xs) = map (\<lambda>(a, b, c, d). (f a, f b, f c, f d)) (quads xs)"
  by (induction xs rule: quads.induct) simp_all

lemma length_quads: "length (quads xs) = length xs div 4"
  by (induction xs rule: quads.induct) simp_all

lemma quads_nth:
  "i < length xs div 4 \<Longrightarrow>
     quads xs ! i = (xs ! (4 * i), xs ! (4 * i + 1), xs ! (4 * i + 2), xs ! (4 * i + 3))"
proof (induction xs arbitrary: i rule: quads.induct)
  case (1 a b c d xs)
  then show ?case by (cases i) (simp_all add: nth_Cons' add.commute)
qed simp_all

lemma take4_Cons4: "take (4 + m) (a # b # c # d # xs) = a # b # c # d # take m xs"
  by (simp add: take_Cons')

lemma quads_take: "quads (take (4 * (length xs div 4)) xs) = quads xs"
proof (induction xs rule: quads.induct)
  case (1 a b c d xs)
  have "4 * (length (a # b # c # d # xs) div 4) = 4 + 4 * (length xs div 4)"
    by simp presburger
  then show ?case using 1 by (simp only: take4_Cons4 quads.simps)
qed simp_all

lemma collect_Inr: "collect (map (\<lambda>x. Inr (f x)) xs) = Inr (map f xs)"
  by (induction xs) simp_all


lemma hex_nat_byte:
  "n < 256 \<Longrightarrow> hex_nat n = (if n < 16 then [digit_char n] else [digit_char (n div 16), digit_char (n mod 16)])"
proof -
  assume n: "n < 256"
  show ?thesis
  proof (cases "n < 16")
    case True
    then show ?thesis by (subst hex_nat.simps) simp
  next
    case False
    with n have "n div 16 < 16" by simp
    then have "hex_nat (n div 16) = [digit_char (n div 16)]" by (subst hex_nat.simps) simp
    with False show ?thesis by (subst hex_nat.simps) simp
  qed
qed

lemma digit_char_0: "digit_char 0 = CHR ''0''"
  by (simp add: digit_char_def)

lemma hex2_byte:
  assumes n: "n < 256"
  shows "zfill 2 (lstrip ''0x'' (py_hex (int n))) = [digit_char (n div 16), digit_char (n mod 16)]"
proof -
  consider "n = 0" | "0 < n" "n < 16" | "16 \<le> n" by linarith
  then show ?thesis
  proof cases
    case 1
    then show ?thesis
      by (simp add: py_hex_def hex_nat_byte lstrip_def zfill_def digit_char_0 numeral_2_eq_2)
  next
    case 2
    then have "digit_char n \<noteq> CHR ''0''" "digit_char n \<notin> set ''.-+x''"
      using digit_char_nonzero [of n] digit_char_plain [of n] by simp_all
    with 2 show ?thesis
      by (simp add: py_hex_def hex_nat_byte lstrip_def zfill_def digit_char_0)
  next
    case 3
    with n have d: "n div 16 < 16" "0 < n div 16" by simp_all
    then have "digit_char (n div 16) \<noteq> CHR ''0''" "digit_char (n div 16) \<notin> set ''.-+x''"
      using digit_char_nonzero [of "n div 16"] digit_char_plain [of "n div 16"] by simp_all
    with 3 n show ?thesis
      by (simp add: py_hex_def hex_nat_byte lstrip_def zfill_def)
  qed
qed

lemma m_list_byte:
  "zfill 2 (lstrip ''0x'' (py_hex (ord x))) =
     [digit_char (of_char x div 16), digit_char (of_char x mod 16)]"
proof -
  have "ord x = int (of_char x)" by (simp add: ord_def of_nat_of_char)
  moreover have "(of_char x :: nat) < 256" by simp
  ultimately show ?thesis using hex2_byte [of "of_char x"] by simp
qed

lemma py_int16_hex8:
  assumes "d1 < 16" "d2 < 16" "d3 < 16" "d4 < 16" "d5 < 16" "d6 < 16" "d7 < 16" "d8 < 16"
  shows "py_int16 (''0x'' @ [digit_char d1, digit_char d2] @ [digit_char d3, digit_char d4]
            @ [digit_char d5, digit_char d6] @ [digit_char d7, digit_char d8])
         = Inr (int (((((((d1 * 16 + d2) * 16 + d3) * 16 + d4) * 16 + d5) * 16 + d6) * 16 + d7) * 16 + d8))"
proof -
  let ?s = "''0x'' @ [digit_char d1, digit_char d2] @ [digit_char d3, digit_char d4]
            @ [digit_char d5, digit_char d6] @ [digit_char d7, digit_char d8]"
  have "\<forall>c\<in>set ?s. \<not> is_space c"
    using assms digit_char_plain by (auto simp: is_space_def)
  then have "py_strip ?s = ?s" by (rule py_strip_plain)
  then have "py_int16 ?s = unsigned_literal 16 [digit_char d1, digit_char d2, digit_char d3,
      digit_char d4, digit_char d5, digit_char d6, digit_char d7, digit_char d8]"
    by (simp add: py_int16_def signed_literal_def hex_body_def)
  also have "\<dots> = Inr (int (((((((d1 * 16 + d2) * 16 + d3) * 16 + d4) * 16 + d5) * 16 + d6) * 16 + d7) * 16 + d8))"
    using assms by (simp add: unsigned_literal_def digit_val_digit_char_16 algebra_simps)
  finally show ?thesis .
qed

lemma be32_digits:
  "int ((((((((of_char a div 16) * 16 + of_char a mod 16) * 16 + of_char b div 16) * 16 + of_char b mod 16) * 16
       + of_char c div 16) * 16 + of_char c mod 16) * 16 + of_char d div 16) * 16 + of_char d mod 16)
   = be32 a b c d"
proof -
  have e: "\<And>x. ord x = int (of_char x)" by (simp add: ord_def of_nat_of_char)
  have m: "\<And>n::nat. n div 16 * 16 + n mod 16 = n" by simp
  have "(((((((of_char a div 16) * 16 + of_char a mod 16) * 16 + of_char b div 16) * 16 + of_char b mod 16) * 16
       + of_char c div 16) * 16 + of_char c mod 16) * 16 + of_char d div 16) * 16 + of_char d mod 16
     = ((of_char a * 256 + of_char b) * 256 + of_char c) * 256 + (of_char d :: nat)"
    by (simp add: algebra_simps)
  then show ?thesis by (simp add: be32_def e)
qed


lemma hex_list_m_list:
  "hex_list (m_list raw) =
     map (\<lambda>(a, b, c, d). ''0x'' @ [digit_char (of_char a div 16), digit_char (of_char a mod 16)]
          @ [digit_char (of_char b div 16), digit_char (of_char b mod 16)]
          @ [digit_char (of_char c div 16), digit_char (of_char c mod 16)]
          @ [digit_char (of_char d div 16), digit_char (of_char d mod 16)]) (quads raw)"
  unfolding hex_list_def m_list_def zip_stride_quads quads_map
  by (simp add: m_list_byte case_prod_unfold del: append.simps)

lemma py_int16_group:
  "py_int16 (''0x'' @ [digit_char (of_char a div 16), digit_char (of_char a mod 16)]
          @ [digit_char (of_char b div 16), digit_char (of_char b mod 16)]
          @ [digit_char (of_char c div 16), digit_char (of_char c mod 16)]
          @ [digit_char (of_char d div 16), digit_char (of_char d mod 16)]) = Inr (be32 a b c d)"
proof -
  have b: "\<And>x. (of_char x :: nat) div 16 < 16" "\<And>x. (of_char x :: nat) mod 16 < 16"
  proof -
    fix x
    have "\<And>n::nat. n < 256 \<Longrightarrow> n div 16 < 16" by simp
    from this [OF nat_of_char_less_256] show "(of_char x :: nat) div 16 < 16" .
    show "(of_char x :: nat) mod 16 < 16" by simp
  qed
  show ?thesis
    unfolding be32_digits [symmetric] by (rule py_int16_hex8) (rule b)+
qed

lemma member_list_quads:
  "member_list raw = Inr (map (\<lambda>(a, b, c, d). be32 a b c d) (quads raw))"
proof -
  have "map py_int16 (hex_list (m_list raw))
          = map (\<lambda>q. Inr ((\<lambda>(a, b, c, d). be32 a b c d) q)) (quads raw)"
    unfolding hex_list_m_list by (simp add: case_prod_unfold py_int16_group del: append.simps)
  then show ?thesis
    unfolding member_list_def by (simp only: collect_Inr)
qed

lemma quads_index:
  "quads xs = map (\<lambda>i. (xs ! (4 * i), xs ! (4 * i + 1), xs ! (4 * i + 2), xs ! (4 * i + 3)))
                [0..<length xs div 4]"
  by (rule nth_equalityI) (simp_all add: length_quads quads_nth)

lemma member_list_index:
  "member_list raw =
     Inr (map (\<lambda>i. be32 (raw ! (4 * i)) (raw ! (4 * i + 1)) (raw ! (4 * i + 2)) (raw ! (4 * i + 3)))
            [0..<length raw div 4])"
  by (subst member_list_quads, subst quads_index) simp

lemma be32_range: "0 \<le> be32 a b c d \<and> be32 a b c d < 4294967296"
  using ord_range [of a] ord_range [of b] ord_range [of c] ord_range [of d]
  by (simp add: be32_def)

lemma member_list_take:
  "member_list (take (4 * (length raw div 4)) raw) = member_list raw"
  by (simp only: member_list_quads quads_take)


lemma lag_lines_before_header:
  "\<forall>p\<in>set pre. \<not> py_in ''Deploy'' p \<Longrightarrow>
     lag_lines False po_list (pre @ items) = lag_lines False po_list items"
  by (induction pre) simp_all

lemma lag_lines_rows:
  "\<forall>r\<in>set rows. r \<noteq> [] \<and> \<not> py_in ''Deploy'' r \<and> 5 \<le> length (py_split r) \<Longrightarrow>
     lag_lines True po_list (rows @ [] # rest) = Inr (po_list @ map lag_row rows)"
proof (induction rows arbitrary: po_list)
  case Nil
  then show ?case by simp
next
  case (Cons r rows)
  then have "lag_lines True (po_list @ [lag_row r]) (rows @ [] # rest)
               = Inr ((po_list @ [lag_row r]) @ map lag_row rows)"
    by simp
  with Cons.prems show ?case
    by (simp add: lag_row_def Let_def)
qed

lemma lag_lines_error: "lag_lines start_parse po_list items = Inl e \<Longrightarrow> e = IndexError"
  by (induction start_parse po_list items rule: lag_lines.induct)
     (auto simp: Let_def split: if_splits)

lemma lacp_lines_append:
  "lacp_lines intf_name info pre = Inr info' \<Longrightarrow>
     lacp_lines intf_name info (pre @ lines) = lacp_lines intf_name info' lines"
proof (induction pre arbitrary: info)
  case Nil
  then show ?case by simp
next
  case (Cons l pre)
  from Cons.prems show ?case
    by (simp add: Let_def split: if_splits) (rule Cons.IH, assumption)+
qed


lemma lag_lines_rows_append:
  "\<forall>r\<in>set rows. r \<noteq> [] \<and> \<not> py_in ''Deploy'' r \<and> 5 \<le> length (py_split r) \<Longrightarrow>
     lag_lines True po_list (rows @ items) = lag_lines True (po_list @ map lag_row rows) items"
proof (induction rows arbitrary: po_list)
  case Nil
  then show ?case by simp
next
  case (Cons r rows)
  then have i: "lag_lines True (po_list @ [lag_row r]) (rows @ items)
               = lag_lines True ((po_list @ [lag_row r]) @ map lag_row rows) items"
    by simp
  have "lag_lines True po_list ((r # rows) @ items)
          = lag_lines True (po_list @ [lag_row r]) (rows @ items)"
    using Cons.prems by (simp add: lag_row_def Let_def)
  with i show ?case by simp
qed

lemma py_in_nonempty: "py_in (c # cs) s \<Longrightarrow> s \<noteq> []"
  by (cases s) simp_all

lemma lag_lines_table_line:
  assumes rows: "\<forall>r\<in>set (rows @ later). r \<noteq> [] \<and> \<not> py_in ''Deploy'' r \<and> 5 \<le> length (py_split r)"
    and line: "line \<noteq> []"
  shows "lag_lines True [] (rows @ line # later @ [] # rest)
       = (if py_in ''Deploy'' line then Inr (map lag_row (rows @ later))
          else if length (py_split line) < 5 then Inl IndexError
          else Inr (map lag_row (rows @ line # later)))"
proof -
  from rows have r: "\<forall>r\<in>set rows. r \<noteq> [] \<and> \<not> py_in ''Deploy'' r \<and> 5 \<le> length (py_split r)"
    and m: "\<forall>r\<in>set later. r \<noteq> [] \<and> \<not> py_in ''Deploy'' r \<and> 5 \<le> length (py_split r)"
    by simp_all
  have a: "lag_lines True [] (rows @ line # later @ [] # rest)
             = lag_lines True (map lag_row rows) (line # later @ [] # rest)"
    using lag_lines_rows_append [OF r, of "[]"] by simp
  have b: "lag_lines True po_list (later @ [] # rest) = Inr (po_list @ map lag_row later)"
    for po_list
    using m by (rule lag_lines_rows)
  show ?thesis
    unfolding a using line by (simp add: b lag_row_def Let_def)
qed

lemma lacp_lines_skip:
  "\<forall>p\<in>set pre. \<not> py_in ''Error'' p \<and> \<not> py_in intf_name p \<Longrightarrow>
     lacp_lines intf_name info pre = Inr info"
  by (induction pre) simp_all

lemma snd_and_then:
  "snd (and_then m f) = (case snd m of Inl e \<Rightarrow> Inl e | Inr x \<Rightarrow> snd (f x))"
  by (simp add: and_then_def split: sum.splits)

lemma fst_and_then:
  "fst (and_then m f) = (case snd m of Inl e \<Rightarrow> fst m | Inr x \<Rightarrow> fst m @ fst (f x))"
  by (simp add: and_then_def split: sum.splits)

lemma run_parts:
  "fst (result x) = []" "snd (result x) = Inr x"
  "fst (raise e) = []" "snd (raise e) = Inl e"
  "fst (lift r) = []" "snd (lift r) = r"
  "fst (snmp_callback c oid) = [SnmpGet oid]"
  "snd (snmp_callback c oid) = Inr (callback_snmp c oid)"
  "fst (cli_lacp_member_info c lag_name intf_name) = [CliGet (''show lacp lag_name '' @ lag_name)]"
  by (simp_all add: result_def raise_def lift_def snmp_callback_def cli_lacp_member_info_def)

lemma getters_valid:
  assumes "1 \<le> length lag_name" "length lag_name \<le> 64"
  shows "get_port_channel_ifindex c (Some lag_name)
           = snmp_callback c (table_oid c ''fdryLinkAggregationGroupIfIndex'' lag_name)"
    and "get_port_channel_id c (Some lag_name)
           = snmp_callback c (table_oid c ''fdryLinkAggregationGroupId'' lag_name)"
    and "get_port_channel_member_ports c (Some lag_name)
           = and_then (snmp_callback c (table_oid c ''fdryLinkAggregationGroupIfList'' lag_name))
               (\<lambda>lag_grp_list. case lag_grp_list of
                    SnmpInt i \<Rightarrow> raise TypeError
                  | SnmpStr octets \<Rightarrow>
                      and_then (lift (member_list octets)) (\<lambda>members.
                        result (get_interface_id_name_mapping c members)))"
  using assms
  by (auto simp: get_port_channel_ifindex_def get_port_channel_id_def
      get_port_channel_member_ports_def lag_key_oid_def table_oid_def)

lemma getter_invalid:
  assumes "\<not> (1 \<le> length lag_name \<and> length lag_name \<le> 64)"
  shows "get_port_channel_ifindex c (Some lag_name)
       = raise (ValueError ''Port-channel name should be 1-64 characters'')"
proof -
  from assms have "length lag_name < 1 \<or> length lag_name > 64" by linarith
  then show ?thesis
    by (simp add: get_port_channel_ifindex_def lag_key_oid_def)
qed

lemma and_then_raise: "and_then (raise e) f = ([], Inl e)"
  by (simp add: and_then_def raise_def)

lemma port_channel_invalid:
  assumes "\<not> (1 \<le> length lag_name \<and> length lag_name \<le> 64)"
  shows "port_channel c (lag_name, mode, primary_port, deploy)
       = ([], Inl (ValueError ''Port-channel name should be 1-64 characters''))"
  unfolding port_channel_def prod.case getter_invalid [OF assms] by (rule and_then_raise)

lemma member_ports_parts:
  "snd (and_then (snmp_callback c oid)
          (\<lambda>lag_grp_list. case lag_grp_list of
               SnmpInt i \<Rightarrow> raise TypeError
             | SnmpStr octets \<Rightarrow>
                 and_then (lift (member_list octets)) (\<lambda>members.
                   result (get_interface_id_name_mapping c members))))
     = (case callback_snmp c oid of
          SnmpInt i \<Rightarrow> Inl TypeError
        | SnmpStr octets \<Rightarrow>
            Inr (get_interface_id_name_mapping c
                   (map (\<lambda>(a, b, c, d). be32 a b c d) (quads octets))))"
  "fst (and_then (snmp_callback c oid)
          (\<lambda>lag_grp_list. case lag_grp_list of
               SnmpInt i \<Rightarrow> raise TypeError
             | SnmpStr octets \<Rightarrow>
                 and_then (lift (member_list octets)) (\<lambda>members.
                   result (get_interface_id_name_mapping c members))))
     = [SnmpGet oid]"
  by (simp_all add: snd_and_then fst_and_then run_parts member_list_quads
      split: snmp_value.splits)

lemma for_each_plain:
  "for_each (member_step c lag_name False) (il, ra, tx, rx) entries
     = result (il @ map plain_member entries, ra, tx, rx)"
proof (induction entries arbitrary: il)
  case Nil
  then show ?case by simp
next
  case (Cons x entries)
  have "member_step c lag_name False (il, ra, tx, rx) x
          = result (il @ [plain_member x], ra, tx, rx)"
    by (cases x) (simp add: member_step_def plain_member_def Let_def)
  then show ?case using Cons [of "il @ [plain_member x]"]
    by (simp add: run_parts) (simp add: result_def)
qed

lemma fst_member_step_lacp:
  "fst (member_step c lag_name True st x) = [CliGet (''show lacp lag_name '' @ lag_name)]"
  by (cases st, cases x)
     (simp add: member_step_def Let_def fst_and_then run_parts case_prod_unfold
        split: sum.splits)

lemma snd_member_step_lacp:
  "snd (member_step c lag_name True st x) = Inr st' \<Longrightarrow>
     length (fst st') = Suc (length (fst st))"
  by (cases st, cases x)
     (auto simp: member_step_def Let_def snd_and_then run_parts case_prod_unfold
        split: sum.splits)

lemma for_each_lacp:
  "snd (for_each (member_step c lag_name True) st entries) = Inr st' \<Longrightarrow>
     fst (for_each (member_step c lag_name True) st entries)
       = replicate (length entries) (CliGet (''show lacp lag_name '' @ lag_name))
     \<and> length (fst st') = length (fst st) + length entries"
proof (induction entries arbitrary: st)
  case Nil
  then show ?case by (simp add: run_parts)
next
  case (Cons x entries)
  from Cons.prems obtain st1 where
    s1: "snd (member_step c lag_name True st x) = Inr st1"
    and s2: "snd (for_each (member_step c lag_name True) st1 entries) = Inr st'"
    by (auto split: sum.splits)
  from Cons.IH [OF s2] snd_member_step_lacp [OF s1] s1 show ?case
    by (simp add: fst_member_step_lacp)
qed

lemma fetch_lacp_fields_parts:
  "snd (fetch_lacp_fields c idx)
     = Inr (callback_snmp c (lacp_oid c ''dot3adAggActorSystemPriority'' idx),
            mac_address c (callback_snmp c (lacp_oid c ''dot3adAggActorSystemID'' idx)),
            callback_snmp c (lacp_oid c ''dot3adAggPartnerSystemPriority'' idx),
            mac_address c (callback_snmp c (lacp_oid c ''dot3adAggPartnerSystemID'' idx)),
            callback_snmp c (lacp_oid c ''dot3adAggActorAdminKey'' idx),
            callback_snmp c (lacp_oid c ''dot3adAggActorOperKey'' idx),
            callback_snmp c (lacp_oid c ''dot3adAggPartnerOperKey'' idx))"
  "fst (fetch_lacp_fields c idx)
     = [SnmpGet (lacp_oid c ''dot3adAggActorSystemPriority'' idx),
        SnmpGet (lacp_oid c ''dot3adAggActorSystemID'' idx),
        SnmpGet (lacp_oid c ''dot3adAggPartnerSystemPriority'' idx),
        SnmpGet (lacp_oid c ''dot3adAggPartnerSystemID'' idx),
        SnmpGet (lacp_oid c ''dot3adAggActorAdminKey'' idx),
        SnmpGet (lacp_oid c ''dot3adAggActorOperKey'' idx),
        SnmpGet (lacp_oid c ''dot3adAggPartnerOperKey'' idx)]"
  by (simp_all add: fetch_lacp_fields_def snd_and_then fst_and_then run_parts)

lemma member_ports_valid:
  assumes "1 \<le> length lag_name" "length lag_name \<le> 64"
  shows "snd (get_port_channel_member_ports c (Some lag_name))
     = (case callback_snmp c (table_oid c ''fdryLinkAggregationGroupIfList'' lag_name) of
          SnmpInt i \<Rightarrow> Inl TypeError
        | SnmpStr octets \<Rightarrow>
            Inr (get_interface_id_name_mapping c
                   (map (\<lambda>(a, b, c, d). be32 a b c d) (quads octets))))"
    and "fst (get_port_channel_member_ports c (Some lag_name))
     = [SnmpGet (table_oid c ''fdryLinkAggregationGroupIfList'' lag_name)]"
  unfolding getters_valid(3) [OF assms] by (rule member_ports_parts)+

lemma port_channel_plain:
  assumes "1 \<le> length lag_name" "length lag_name \<le> 64"
    and "\<not> (mode = ''dynamic'' \<and> deploy)"
  shows "fst (port_channel c (lag_name, mode, primary_port, deploy))
     = [SnmpGet (table_oid c ''fdryLinkAggregationGroupIfIndex'' lag_name),
        SnmpGet (table_oid c ''fdryLinkAggregationGroupId'' lag_name),
        SnmpGet (table_oid c ''fdryLinkAggregationGroupIfList'' lag_name)]"
    and "snd (port_channel c (lag_name, mode, primary_port, deploy))
     = (case callback_snmp c (table_oid c ''fdryLinkAggregationGroupIfList'' lag_name) of
          SnmpInt i \<Rightarrow> Inl TypeError
        | SnmpStr octets \<Rightarrow>
            Inr \<lparr>po_interface_name = lag_name,
                 interfaces = map plain_member
                   (get_interface_id_name_mapping c
                      (map (\<lambda>(a, b, c, d). be32 a b c d) (quads octets))),
                 aggregator_id = snmp_str
                   (callback_snmp c (table_oid c ''fdryLinkAggregationGroupId'' lag_name)),
                 aggregator_type = ''standard'', is_vlag = False, aggregator_mode = mode,
                 system_priority = SnmpStr [], actor_system_id = [],
                 partner_oper_priority = SnmpStr [], partner_system_id = [],
                 admin_key = SnmpStr [], oper_key = SnmpStr [], partner_oper_key = SnmpStr [],
                 rx_link_count = 0, tx_link_count = 0, individual_agg = 0, ready_agg = 0\<rparr>)"
proof -
  have d: "(mode = ''dynamic'' \<and> deploy) = False" using assms(3) by simp
  show "fst (port_channel c (lag_name, mode, primary_port, deploy))
     = [SnmpGet (table_oid c ''fdryLinkAggregationGroupIfIndex'' lag_name),
        SnmpGet (table_oid c ''fdryLinkAggregationGroupId'' lag_name),
        SnmpGet (table_oid c ''fdryLinkAggregationGroupIfList'' lag_name)]"
    unfolding port_channel_def prod.case d getters_valid(1,2) [OF assms(1,2)]
    by (simp add: fst_and_then snd_and_then run_parts member_ports_valid [OF assms(1,2)]
        for_each_plain empty_lacp_fields_def split: snmp_value.splits)
  show "snd (port_channel c (lag_name, mode, primary_port, deploy))
     = (case callback_snmp c (table_oid c ''fdryLinkAggregationGroupIfList'' lag_name) of
          SnmpInt i \<Rightarrow> Inl TypeError
        | SnmpStr octets \<Rightarrow>
            Inr \<lparr>po_interface_name = lag_name,
                 interfaces = map plain_member
                   (get_interface_id_name_mapping c
                      (map (\<lambda>(a, b, c, d). be32 a b c d) (quads octets))),
                 aggregator_id = snmp_str
                   (callback_snmp c (table_oid c ''fdryLinkAggregationGroupId'' lag_name)),
                 aggregator_type = ''standard'', is_vlag = False, aggregator_mode = mode,
                 system_priority = SnmpStr [], actor_system_id = [],
                 partner_oper_priority = SnmpStr [], partner_system_id = [],
                 admin_key = SnmpStr [], oper_key = SnmpStr [], partner_oper_key = SnmpStr [],
                 rx_link_count = 0, tx_link_count = 0, individual_agg = 0, ready_agg = 0\<rparr>)"
    unfolding port_channel_def prod.case d getters_valid(1,2) [OF assms(1,2)]
    by (simp add: snd_and_then run_parts member_ports_valid [OF assms(1,2)]
        for_each_plain empty_lacp_fields_def split: snmp_value.splits)
qed

lemma port_channel_lacp:
  assumes v: "1 \<le> length lag_name" "length lag_name \<le> 64"
    and d: "mode = ''dynamic'' \<and> deploy"
    and ok: "snd (port_channel c (lag_name, mode, primary_port, deploy)) = Inr r"
    and idx: "idx = snmp_str
        (callback_snmp c (table_oid c ''fdryLinkAggregationGroupIfIndex'' lag_name))"
  shows "system_priority r = callback_snmp c (lacp_oid c ''dot3adAggActorSystemPriority'' idx)"
    and "actor_system_id r
           = mac_address c (callback_snmp c (lacp_oid c ''dot3adAggActorSystemID'' idx))"
    and "partner_oper_priority r
           = callback_snmp c (lacp_oid c ''dot3adAggPartnerSystemPriority'' idx)"
    and "partner_system_id r
           = mac_address c (callback_snmp c (lacp_oid c ''dot3adAggPartnerSystemID'' idx))"
    and "admin_key r = callback_snmp c (lacp_oid c ''dot3adAggActorAdminKey'' idx)"
    and "oper_key r = callback_snmp c (lacp_oid c ''dot3adAggActorOperKey'' idx)"
    and "partner_oper_key r = callback_snmp c (lacp_oid c ''dot3adAggPartnerOperKey'' idx)"
    and "fst (port_channel c (lag_name, mode, primary_port, deploy))
           = [SnmpGet (table_oid c ''fdryLinkAggregationGroupIfIndex'' lag_name),
              SnmpGet (table_oid c ''fdryLinkAggregationGroupId'' lag_name),
              SnmpGet (lacp_oid c ''dot3adAggActorSystemPriority'' idx),
              SnmpGet (lacp_oid c ''dot3adAggActorSystemID'' idx),
              SnmpGet (lacp_oid c ''dot3adAggPartnerSystemPriority'' idx),
              SnmpGet (lacp_oid c ''dot3adAggPartnerSystemID'' idx),
              SnmpGet (lacp_oid c ''dot3adAggActorAdminKey'' idx),
              SnmpGet (lacp_oid c ''dot3adAggActorOperKey'' idx),
              SnmpGet (lacp_oid c ''dot3adAggPartnerOperKey'' idx),
              SnmpGet (table_oid c ''fdryLinkAggregationGroupIfList'' lag_name)]
             @ replicate (length (interfaces r)) (CliGet (''show lacp lag_name '' @ lag_name))"
proof -
  have t: "(mode = ''dynamic'' \<and> deploy) = True" using d by simp
  note u = port_channel_def prod.case t getters_valid(1,2) [OF v]
  from ok obtain octets st where
    o: "callback_snmp c (table_oid c ''fdryLinkAggregationGroupIfList'' lag_name) = SnmpStr octets"
    and s: "snd (for_each (member_step c lag_name True) ([], 0, 0, 0)
               (get_interface_id_name_mapping c
                  (map (\<lambda>(a, b, c, d). be32 a b c d) (quads octets)))) = Inr st"
    and r: "r = \<lparr>po_interface_name = lag_name, interfaces = fst st,
                 aggregator_id = snmp_str
                   (callback_snmp c (table_oid c ''fdryLinkAggregationGroupId'' lag_name)),
                 aggregator_type = ''standard'', is_vlag = False, aggregator_mode = mode,
                 system_priority = callback_snmp c (lacp_oid c ''dot3adAggActorSystemPriority'' idx),
                 actor_system_id
                   = mac_address c (callback_snmp c (lacp_oid c ''dot3adAggActorSystemID'' idx)),
                 partner_oper_priority
                   = callback_snmp c (lacp_oid c ''dot3adAggPartnerSystemPriority'' idx),
                 partner_system_id
                   = mac_address c (callback_snmp c (lacp_oid c ''dot3adAggPartnerSystemID'' idx)),
                 admin_key = callback_snmp c (lacp_oid c ''dot3adAggActorAdminKey'' idx),
                 oper_key = callback_snmp c (lacp_oid c ''dot3adAggActorOperKey'' idx),
                 partner_oper_key = callback_snmp c (lacp_oid c ''dot3adAggPartnerOperKey'' idx),
                 rx_link_count = snd (snd (snd st)), tx_link_count = fst (snd (snd st)),
                 individual_agg = 0, ready_agg = fst (snd st)\<rparr>"
    unfolding u idx
    by (auto simp: snd_and_then run_parts member_ports_valid [OF v] fetch_lacp_fields_parts
        split: snmp_value.splits sum.splits prod.splits)
  from r show "system_priority r = callback_snmp c (lacp_oid c ''dot3adAggActorSystemPriority'' idx)"
    and "actor_system_id r
           = mac_address c (callback_snmp c (lacp_oid c ''dot3adAggActorSystemID'' idx))"
    and "partner_oper_priority r
           = callback_snmp c (lacp_oid c ''dot3adAggPartnerSystemPriority'' idx)"
    and "partner_system_id r
           = mac_address c (callback_snmp c (lacp_oid c ''dot3adAggPartnerSystemID'' idx))"
    and "admin_key r = callback_snmp c (lacp_oid c ''dot3adAggActorAdminKey'' idx)"
    and "oper_key r = callback_snmp c (lacp_oid c ''dot3adAggActorOperKey'' idx)"
    and "partner_oper_key r = callback_snmp c (lacp_oid c ''dot3adAggPartnerOperKey'' idx)"
    by simp_all
  from for_each_lacp [OF s] r have
    "fst (for_each (member_step c lag_name True) ([], 0, 0, 0)
            (get_interface_id_name_mapping c
               (map (\<lambda>(a, b, c, d). be32 a b c d) (quads octets))))
       = replicate (length (interfaces r)) (CliGet (''show lacp lag_name '' @ lag_name))"
    by simp
  with o s show "fst (port_channel c (lag_name, mode, primary_port, deploy))
           = [SnmpGet (table_oid c ''fdryLinkAggregationGroupIfIndex'' lag_name),
              SnmpGet (table_oid c ''fdryLinkAggregationGroupId'' lag_name),
              SnmpGet (lacp_oid c ''dot3adAggActorSystemPriority'' idx),
              SnmpGet (lacp_oid c ''dot3adAggActorSystemID'' idx),
              SnmpGet (lacp_oid c ''dot3adAggPartnerSystemPriority'' idx),
              SnmpGet (lacp_oid c ''dot3adAggPartnerSystemID'' idx),
              SnmpGet (lacp_oid c ''dot3adAggActorAdminKey'' idx),
              SnmpGet (lacp_oid c ''dot3adAggActorOperKey'' idx),
              SnmpGet (lacp_oid c ''dot3adAggPartnerOperKey'' idx),
              SnmpGet (table_oid c ''fdryLinkAggregationGroupIfList'' lag_name)]
             @ replicate (length (interfaces r)) (CliGet (''show lacp lag_name '' @ lag_name))"
    unfolding u idx
    by (simp add: fst_and_then snd_and_then run_parts member_ports_valid [OF v]
        fetch_lacp_fields_parts case_prod_unfold)
qed

lemma stub_lacp_output:
  "split_on CHR 0x0A (callback_cli (stub_device m) (''show lacp lag_name '' @ ''po50''))
     = [''2/1 ACTR 1 2 3 Yes 6 Agg Syn Col Dis'', ''2/1 PRTR 1 2 3 Yes 6 Agg Syn Col Dis'',
        ''2/1 rx 5 tx 7'', ''2/2 ACTR 1 2 3 Yes 6 Agg Syn No Dis'',
        ''2/2 PRTR 1 2 3 Yes 6 Agg Syn Col Dis'', ''2/2 rx 0 tx 7'']"
  by (simp add: stub_device_def)

lemma stub_member_info:
  "get_lacp_member_info (callback_cli (stub_device m)) ''po50'' ''2/1'' =
     Inr [(''int_name'', PStr ''2/1''), (''actor_oper_key'', PStr ''3''),
          (''actor_agg'', PBool True), (''actor_syn'', PBool True),
          (''actor_coll'', PBool True), (''actor_dist'', PBool True),
          (''actor_activity'', PBool True), (''part_oper_key'', PStr ''3''),
          (''part_agg'', PBool True), (''part_syn'', PBool True),
          (''part_coll'', PBool True), (''part_dist'', PBool True),
          (''part_activity'', PBool True), (''rx_count'', PStr ''5''),
          (''tx_count'', PStr ''7'')]"
  "get_lacp_member_info (callback_cli (stub_device m)) ''po50'' ''2/2'' =
     Inr [(''int_name'', PStr ''2/2''), (''actor_oper_key'', PStr ''3''),
          (''actor_agg'', PBool True), (''actor_syn'', PBool True),
          (''actor_coll'', PBool False), (''actor_dist'', PBool True),
          (''actor_activity'', PBool True), (''part_oper_key'', PStr ''3''),
          (''part_agg'', PBool True), (''part_syn'', PBool True),
          (''part_coll'', PBool True), (''part_dist'', PBool True),
          (''part_activity'', PBool True), (''rx_count'', PStr ''0''),
          (''tx_count'', PStr ''7'')]"
  unfolding get_lacp_member_info_def stub_lacp_output
  by (simp_all add: starts_with_def is_space_def Let_def)

lemma py_int_digit:
  "py_int ''5'' = Inr 5" "py_int ''7'' = Inr 7" "py_int ''0'' = Inr 0"
  by (simp_all add: py_int_def signed_literal_def py_strip_def is_space_def
      unsigned_literal_def digit_val_def)

lemma stub_member_lacp:
  "member_lacp [(''int_name'', PStr ''2/1''), (''actor_oper_key'', PStr ''3''),
          (''actor_agg'', PBool True), (''actor_syn'', PBool True),
          (''actor_coll'', PBool True), (''actor_dist'', PBool True),
          (''actor_activity'', PBool True), (''part_oper_key'', PStr ''3''),
          (''part_agg'', PBool True), (''part_syn'', PBool True),
          (''part_coll'', PBool True), (''part_dist'', PBool True),
          (''part_activity'', PBool True), (''rx_count'', PStr ''5''),
          (''tx_count'', PStr ''7'')] = Inr (True, True, True, True)"
  "member_lacp [(''int_name'', PStr ''2/2''), (''actor_oper_key'', PStr ''3''),
          (''actor_agg'', PBool True), (''actor_syn'', PBool True),
          (''actor_coll'', PBool False), (''actor_dist'', PBool True),
          (''actor_activity'', PBool True), (''part_oper_key'', PStr ''3''),
          (''part_agg'', PBool True), (''part_syn'', PBool True),
          (''part_coll'', PBool True), (''part_dist'', PBool True),
          (''part_activity'', PBool True), (''rx_count'', PStr ''0''),
          (''tx_count'', PStr ''7'')] = Inr (True, False, True, False)"
  by (simp_all add: member_lacp_def dict_get_def int_item_def py_int_digit)

lemma stub_members:
  "snd (for_each (member_step (stub_device m) ''po50'' True) ([], 0, 0, 0)
          [(65, ''ethernet2/1''), (66, ''ethernet2/2'')])
     = Inr ([\<lparr>rbridge_id = 0, interface_type = ''ethernet'', interface_name = ''2/1'',
               actor_port = 65, sync = ''1''\<rparr>,
             \<lparr>rbridge_id = 0, interface_type = ''ethernet'', interface_name = ''2/2'',
               actor_port = 66, sync = ''0''\<rparr>], 1, 2, 1)"
proof -
  have s: "strip_chars ''ethernet'' ''ethernet2/1'' = ''2/1''"
    "strip_chars ''ethernet'' ''ethernet2/2'' = ''2/2''"
    by (simp_all add: strip_chars_def)
  show ?thesis
    by (simp add: member_step_def Let_def s snd_and_then cli_lacp_member_info_def
        stub_member_info lift_def stub_member_lacp result_def)
qed

lemma stub_lag:
  "1 \<le> length ''po50''" "length ''po50'' \<le> 64"
  "table_oid (stub_device m) ''fdryLinkAggregationGroupIfList'' ''po50''
     = ''IfList.4.112.111.53.48''"
  "table_oid (stub_device m) ''fdryLinkAggregationGroupIfIndex'' ''po50''
     = ''IfIndex.4.112.111.53.48''"
  "table_oid (stub_device m) ''fdryLinkAggregationGroupId'' ''po50''
     = ''Id.4.112.111.53.48''"
  "callback_snmp (stub_device m) ''IfList.4.112.111.53.48''
     = SnmpStr [CHR 0x00, CHR 0x00, CHR 0x00, CHR 0x41, CHR 0x00, CHR 0x00, CHR 0x00, CHR 0x42]"
  "snmp_str (callback_snmp (stub_device m) ''IfIndex.4.112.111.53.48'') = ''1234''"
  "get_interface_id_name_mapping (stub_device m)
     [be32 CHR 0x00 CHR 0x00 CHR 0x00 CHR 0x41, be32 CHR 0x00 CHR 0x00 CHR 0x00 CHR 0x42]
     = [(65, ''ethernet2/1''), (66, ''ethernet2/2'')]"
  by (simp_all add: table_oid_def stub_device_def lag_row_id_def key_oid_def ord_def
      py_str_def str_nat.simps digit_char_def be32_def)

lemma stub_port_channel_lacp:
  "\<exists>r. snd (port_channel (stub_device ''dynamic'') (''po50'', ''dynamic'', ''2/1'', True))
          = Inr r \<and> length (interfaces r) = 2 \<and> aggregator_mode r = ''dynamic''"
  unfolding port_channel_def prod.case getters_valid(1,2) [OF stub_lag(1,2)]
  by (simp add: snd_and_then run_parts member_ports_valid [OF stub_lag(1,2)]
      fetch_lacp_fields_parts stub_lag stub_members del: for_each.simps)


lemma name_valid_of_record:
  assumes "snd (port_channel c (lag_name, mode, primary_port, deploy)) = Inr r"
  shows "1 \<le> length lag_name" "length lag_name \<le> 64"
proof -
  have "1 \<le> length lag_name \<and> length lag_name \<le> 64"
  proof (rule ccontr)
    assume "\<not> (1 \<le> length lag_name \<and> length lag_name \<le> 64)"
    from port_channel_invalid [OF this] assms show False by simp
  qed
  then show "1 \<le> length lag_name" "length lag_name \<le> 64" by simp_all
qed

lemma plain_trace:
  assumes "\<not> (mode = ''dynamic'' \<and> deploy)"
  shows "set (fst (port_channel c (lag_name, mode, primary_port, deploy)))
        \<subseteq> {SnmpGet (table_oid c ''fdryLinkAggregationGroupIfIndex'' lag_name),
            SnmpGet (table_oid c ''fdryLinkAggregationGroupId'' lag_name),
            SnmpGet (table_oid c ''fdryLinkAggregationGroupIfList'' lag_name)}"
proof (cases "1 \<le> length lag_name \<and> length lag_name \<le> 64")
  case True
  then show ?thesis using port_channel_plain(1) [of lag_name mode deploy c primary_port] assms
    by simp
next
  case False
  then show ?thesis by (simp add: port_channel_invalid)
qed

lemma plain_fields:
  assumes p: "\<not> (mode = ''dynamic'' \<and> deploy)"
    and ok: "snd (port_channel c (lag_name, mode, primary_port, deploy)) = Inr r"
  shows "system_priority r = SnmpStr [] \<and> actor_system_id r = []
            \<and> partner_oper_priority r = SnmpStr [] \<and> partner_system_id r = []
            \<and> admin_key r = SnmpStr [] \<and> oper_key r = SnmpStr []
            \<and> partner_oper_key r = SnmpStr []
            \<and> rx_link_count r = 0 \<and> tx_link_count r = 0
            \<and> individual_agg r = 0 \<and> ready_agg r = 0
            \<and> list_all (\<lambda>m. sync m = ''0'') (interfaces r)"
proof -
  note v = name_valid_of_record [OF ok]
  from ok port_channel_plain(2) [OF v p, of c primary_port]
  obtain octets where
    r: "r = \<lparr>po_interface_name = lag_name,
             interfaces = map plain_member
               (get_interface_id_name_mapping c
                  (map (\<lambda>(a, b, c, d). be32 a b c d) (quads octets))),
             aggregator_id = snmp_str
               (callback_snmp c (table_oid c ''fdryLinkAggregationGroupId'' lag_name)),
             aggregator_type = ''standard'', is_vlag = False, aggregator_mode = mode,
             system_priority = SnmpStr [], actor_system_id = [],
             partner_oper_priority = SnmpStr [], partner_system_id = [],
             admin_key = SnmpStr [], oper_key = SnmpStr [], partner_oper_key = SnmpStr [],
             rx_link_count = 0, tx_link_count = 0, individual_agg = 0, ready_agg = 0\<rparr>"
    by (auto split: snmp_value.splits)
  then show ?thesis
    by (simp add: list_all_iff plain_member_def)
qed

lemma plain_no_error:
  assumes "\<not> (mode = ''dynamic'' \<and> deploy)"
    and "1 \<le> length lag_name \<and> length lag_name \<le> 64
            \<and> (\<exists>octets. callback_snmp c (table_oid c ''fdryLinkAggregationGroupIfList'' lag_name)
                   = SnmpStr octets)"
  shows "\<exists>r. snd (port_channel c (lag_name, mode, primary_port, deploy)) = Inr r"
  using assms port_channel_plain(2) [of lag_name mode deploy c primary_port] by auto

lemma lacp_fetched:
  assumes d: "mode = ''dynamic'' \<and> deploy"
    and a: "snd (port_channel c (lag_name, mode, primary_port, deploy)) = Inr r
          \<and> idx = snmp_str
                (callback_snmp c (table_oid c ''fdryLinkAggregationGroupIfIndex'' lag_name))"
  shows "system_priority r = callback_snmp c (lacp_oid c ''dot3adAggActorSystemPriority'' idx)
          \<and> actor_system_id r
              = mac_address c (callback_snmp c (lacp_oid c ''dot3adAggActorSystemID'' idx))
          \<and> partner_oper_priority r
              = callback_snmp c (lacp_oid c ''dot3adAggPartnerSystemPriority'' idx)
          \<and> partner_system_id r
              = mac_address c (callback_snmp c (lacp_oid c ''dot3adAggPartnerSystemID'' idx))
          \<and> admin_key r = callback_snmp c (lacp_oid c ''dot3adAggActorAdminKey'' idx)
          \<and> oper_key r = callback_snmp c (lacp_oid c ''dot3adAggActorOperKey'' idx)
          \<and> partner_oper_key r = callback_snmp c (lacp_oid c ''dot3adAggPartnerOperKey'' idx)
          \<and> fst (port_channel c (lag_name, mode, primary_port, deploy))
              = [SnmpGet (table_oid c ''fdryLinkAggregationGroupIfIndex'' lag_name),
                 SnmpGet (table_oid c ''fdryLinkAggregationGroupId'' lag_name),
                 SnmpGet (lacp_oid c ''dot3adAggActorSystemPriority'' idx),
                 SnmpGet (lacp_oid c ''dot3adAggActorSystemID'' idx),
                 SnmpGet (lacp_oid c ''dot3adAggPartnerSystemPriority'' idx),
                 SnmpGet (lacp_oid c ''dot3adAggPartnerSystemID'' idx),
                 SnmpGet (lacp_oid c ''dot3adAggActorAdminKey'' idx),
                 SnmpGet (lacp_oid c ''dot3adAggActorOperKey'' idx),
                 SnmpGet (lacp_oid c ''dot3adAggPartnerOperKey'' idx),
                 SnmpGet (table_oid c ''fdryLinkAggregationGroupIfList'' lag_name)]
                @ replicate (length (interfaces r))
                    (CliGet (''show lacp lag_name '' @ lag_name))
          \<and> ((\<forall>oid. snmp_str (callback_snmp c oid) \<noteq> []) \<and> (\<forall>v. mac_address c v \<noteq> [])
              \<longrightarrow> snmp_str (system_priority r) \<noteq> [] \<and> actor_system_id r \<noteq> []
                  \<and> snmp_str (partner_oper_priority r) \<noteq> [] \<and> partner_system_id r \<noteq> []
                  \<and> snmp_str (admin_key r) \<noteq> [] \<and> snmp_str (oper_key r) \<noteq> []
                  \<and> snmp_str (partner_oper_key r) \<noteq> [])"
proof -
  from a have ok: "snd (port_channel c (lag_name, mode, primary_port, deploy)) = Inr r"
    and i: "idx = snmp_str
                (callback_snmp c (table_oid c ''fdryLinkAggregationGroupIfIndex'' lag_name))"
    by simp_all
  note f = port_channel_lacp [OF name_valid_of_record [OF ok] d ok i]
  have e: "(\<forall>oid. snmp_str (callback_snmp c oid) \<noteq> []) \<and> (\<forall>v. mac_address c v \<noteq> [])
              \<longrightarrow> snmp_str (system_priority r) \<noteq> [] \<and> actor_system_id r \<noteq> []
                  \<and> snmp_str (partner_oper_priority r) \<noteq> [] \<and> partner_system_id r \<noteq> []
                  \<and> snmp_str (admin_key r) \<noteq> [] \<and> snmp_str (oper_key r) \<noteq> []
                  \<and> snmp_str (partner_oper_key r) \<noteq> []"
    by (simp only: f(1-7)) blast
  from f e show ?thesis by (intro conjI) assumption+
qed

lemma py_str_nonempty: "py_str i \<noteq> []"
  by (simp add: py_str_def str_nat_nonempty)

lemma stub_answers:
  "snmp_str (callback_snmp (stub_device m) oid) \<noteq> []"
  "mac_address (stub_device m) v \<noteq> []"
  "mac_address (stub_device m) v = ''00:24:38:9e:2a:00''"
  "mib_oid_map (stub_device m) object = object"
  by (simp_all add: stub_device_def py_str_nonempty)

lemma stub_lacp_value:
  "callback_snmp (stub_device m) (''dot3adAgg'' @ rest) = SnmpInt 32768"
  by (simp add: stub_device_def)

lemma collect_nth:
  "collect xs = Inr ys \<Longrightarrow> length ys = length xs \<and> (\<forall>i<length xs. xs ! i = Inr (ys ! i))"
proof (induction xs arbitrary: ys)
  case Nil
  then show ?case by simp
next
  case (Cons x xs)
  from Cons.prems obtain v vs where x: "x = Inr v" and c: "collect xs = Inr vs"
    and y: "ys = v # vs"
    by (auto split: sum.splits)
  from Cons.IH [OF c] x y show ?case
    by (auto simp: nth_Cons split: nat.splits)
qed

lemma for_each_collect:
  "snd (for_each (\<lambda>res x. and_then (f x) (\<lambda>r. result (res @ [r]))) acc xs)
     = (case collect (map (\<lambda>x. snd (f x)) xs) of
          Inl e \<Rightarrow> Inl e
        | Inr rs \<Rightarrow> Inr (acc @ rs))"
proof (induction xs arbitrary: acc)
  case Nil
  then show ?case by (simp add: run_parts)
next
  case (Cons x xs)
  show ?case
    by (simp add: snd_and_then run_parts Cons.IH split: sum.splits)
qed

lemma for_each_requests:
  "snd (for_each (\<lambda>res x. and_then (f x) (\<lambda>r. result (res @ [r]))) acc xs) = Inr rs \<Longrightarrow>
     fst (for_each (\<lambda>res x. and_then (f x) (\<lambda>r. result (res @ [r]))) acc xs)
       = concat (map (\<lambda>x. fst (f x)) xs)"
proof (induction xs arbitrary: acc)
  case Nil
  then show ?case by (simp add: run_parts)
next
  case (Cons x xs)
  from Cons.prems obtain r where
    r: "snd (f x) = Inr r"
    and s: "snd (for_each (\<lambda>res x. and_then (f x) (\<lambda>r. result (res @ [r]))) (acc @ [r]) xs)
              = Inr rs"
    by (auto simp: snd_and_then run_parts split: sum.splits)
  from Cons.IH [OF s] r show ?case
    by (simp add: snd_and_then fst_and_then run_parts)
qed

lemma port_channels_records:
  "snd (port_channels c)
     = (case get_port_channel_list (callback_cli c) of
          Inl e \<Rightarrow> Inl e
        | Inr po_list \<Rightarrow> collect (map (\<lambda>po. snd (port_channel c po)) po_list))"
  unfolding port_channels_def
  by (simp add: snd_and_then cli_lag_brief_def for_each_collect split: sum.splits)

lemma port_channels_each:
  assumes "snd (port_channels c) = Inr rs"
  shows "\<exists>po_list. get_port_channel_list (callback_cli c) = Inr po_list
           \<and> length rs = length po_list
           \<and> (\<forall>i<length po_list. snd (port_channel c (po_list ! i)) = Inr (rs ! i))
           \<and> fst (port_channels c)
               = CliGet ''show lag brief'' # concat (map (\<lambda>po. fst (port_channel c po)) po_list)"
proof -
  from assms obtain po_list where
    p: "get_port_channel_list (callback_cli c) = Inr po_list"
    and c: "collect (map (\<lambda>po. snd (port_channel c po)) po_list) = Inr rs"
    unfolding port_channels_records by (auto split: sum.splits)
  from assms p have s: "snd (for_each (\<lambda>res po. and_then (port_channel c po) (\<lambda>r. result (res @ [r])))
                   [] po_list) = Inr rs"
    unfolding port_channels_def by (simp add: snd_and_then cli_lag_brief_def)
  have f: "fst (port_channels c)
               = CliGet ''show lag brief'' # concat (map (\<lambda>po. fst (port_channel c po)) po_list)"
    unfolding port_channels_def
    by (simp add: fst_and_then cli_lag_brief_def p for_each_requests [OF s])
  from collect_nth [OF c] p f show ?thesis by simp
qed

lemma member_step_status:
  "snd (member_step c lag_name True (il, ra, tx, rx) x)
     = (case member_status c lag_name x of
          Inl e \<Rightarrow> Inl e
        | Inr s \<Rightarrow>
            Inr (il @ [lacp_member x s], (if fst s then 1 else ra),
                 (if fst (snd (snd s)) then tx + 1 else tx),
                 (if snd (snd (snd s)) then rx + 1 else rx)))"
  by (cases x)
     (simp add: member_step_def member_status_def lacp_member_def Let_def snd_and_then run_parts
        cli_lacp_member_info_def case_prod_unfold split: sum.splits)

lemma for_each_status:
  "snd (for_each (member_step c lag_name True) (il, ra, tx, rx) entries)
     = (case collect (map (member_status c lag_name) entries) of
          Inl e \<Rightarrow> Inl e
        | Inr ss \<Rightarrow>
            Inr (il @ map2 lacp_member entries ss,
                 (if list_ex fst ss then 1 else ra),
                 tx + int (length (filter (\<lambda>s. fst (snd (snd s))) ss)),
                 rx + int (length (filter (\<lambda>s. snd (snd (snd s))) ss))))"
proof (induction entries arbitrary: il ra tx rx)
  case Nil
  then show ?case by (simp add: run_parts)
next
  case (Cons x entries)
  show ?case
  proof (cases "member_status c lag_name x")
    case (Inl e)
    then show ?thesis by (simp add: member_step_status)
  next
    case s: (Inr s)
    show ?thesis
    proof (cases "collect (map (member_status c lag_name) entries)")
      case (Inl e)
      with s show ?thesis by (simp add: member_step_status Cons.IH)
    next
      case (Inr ss)
      with s show ?thesis by (simp add: member_step_status Cons.IH)
    qed
  qed
qed

lemma member_status_scrape:
  assumes "member_status c lag_name entry = Inr (agg, in_sync, tx, rx)"
  shows "\<exists>port txc rxc.
           get_lacp_member_info (callback_cli c) lag_name (strip_chars ''ethernet'' (snd entry))
             = Inr port
           \<and> agg = (dict_get port ''actor_agg'' = Inr (PBool True)
                    \<and> dict_get port ''part_agg'' = Inr (PBool True))
           \<and> in_sync = (agg \<and> dict_get port ''actor_coll'' = Inr (PBool True)
                        \<and> dict_get port ''part_coll'' = Inr (PBool True)
                        \<and> dict_get port ''actor_dist'' = Inr (PBool True)
                        \<and> dict_get port ''part_dist'' = Inr (PBool True))
           \<and> int_item port ''tx_count'' = Inr txc \<and> tx = (0 < txc)
           \<and> int_item port ''rx_count'' = Inr rxc \<and> rx = (0 < rxc)"
proof -
  from assms obtain port where
    p: "get_lacp_member_info (callback_cli c) lag_name (strip_chars ''ethernet'' (snd entry))
          = Inr port"
    and m: "member_lacp port = Inr (agg, in_sync, tx, rx)"
    by (auto simp: member_status_def split: sum.splits)
  from m have "\<exists>txc rxc. agg = (dict_get port ''actor_agg'' = Inr (PBool True)
                    \<and> dict_get port ''part_agg'' = Inr (PBool True))
           \<and> in_sync = (agg \<and> dict_get port ''actor_coll'' = Inr (PBool True)
                        \<and> dict_get port ''part_coll'' = Inr (PBool True)
                        \<and> dict_get port ''actor_dist'' = Inr (PBool True)
                        \<and> dict_get port ''part_dist'' = Inr (PBool True))
           \<and> int_item port ''tx_count'' = Inr txc \<and> tx = (0 < txc)
           \<and> int_item port ''rx_count'' = Inr rxc \<and> rx = (0 < rxc)"
    unfolding member_lacp_def
    by (auto split: sum.splits if_splits)
  with p show ?thesis by blast
qed


lemma plain_members:
  assumes p: "\<not> (mode = ''dynamic'' \<and> deploy)"
    and ok: "snd (port_channel c (lag_name, mode, primary_port, deploy)) = Inr r"
  shows "\<exists>entries. snd (get_port_channel_member_ports c (Some lag_name)) = Inr entries
           \<and> interfaces r = map plain_member entries"
proof -
  note v = name_valid_of_record [OF ok]
  from ok port_channel_plain(2) [OF v p, of c primary_port]
  obtain octets where
    o: "callback_snmp c (table_oid c ''fdryLinkAggregationGroupIfList'' lag_name) = SnmpStr octets"
    and r: "interfaces r = map plain_member
               (get_interface_id_name_mapping c
                  (map (\<lambda>(a, b, c, d). be32 a b c d) (quads octets)))"
    by (auto split: snmp_value.splits)
  from o have "snd (get_port_channel_member_ports c (Some lag_name))
      = Inr (get_interface_id_name_mapping c
               (map (\<lambda>(a, b, c, d). be32 a b c d) (quads octets)))"
    by (simp add: member_ports_valid(1) [OF v])
  with r show ?thesis by simp
qed

lemma lacp_members:
  assumes d: "mode = ''dynamic'' \<and> deploy"
    and a: "snd (port_channel c (lag_name, mode, primary_port, deploy)) = Inr r
          \<and> idx = snmp_str
                (callback_snmp c (table_oid c ''fdryLinkAggregationGroupIfIndex'' lag_name))"
  shows "\<exists>entries statuses.
           snd (get_port_channel_member_ports c (Some lag_name)) = Inr entries
           \<and> collect (map (member_status c lag_name) entries) = Inr statuses
           \<and> interfaces r = map2 lacp_member entries statuses
           \<and> ready_agg r = (if list_ex fst statuses then 1 else 0)
           \<and> tx_link_count r = int (length (filter (\<lambda>s. fst (snd (snd s))) statuses))
           \<and> rx_link_count r = int (length (filter (\<lambda>s. snd (snd (snd s))) statuses))
           \<and> individual_agg r = 0"
proof -
  from a have ok: "snd (port_channel c (lag_name, mode, primary_port, deploy)) = Inr r"
    by simp
  note v = name_valid_of_record [OF ok]
  have t: "(mode = ''dynamic'' \<and> deploy) = True" using d by simp
  note u = port_channel_def prod.case t getters_valid(1,2) [OF v]
  from ok obtain octets st where
    o: "callback_snmp c (table_oid c ''fdryLinkAggregationGroupIfList'' lag_name) = SnmpStr octets"
    and s: "snd (for_each (member_step c lag_name True) ([], 0, 0, 0)
               (get_interface_id_name_mapping c
                  (map (\<lambda>(a, b, c, d). be32 a b c d) (quads octets)))) = Inr st"
    and r: "interfaces r = fst st" "ready_agg r = fst (snd st)"
      "tx_link_count r = fst (snd (snd st))" "rx_link_count r = snd (snd (snd st))"
      "individual_agg r = 0"
    unfolding u
    by (auto simp: snd_and_then run_parts member_ports_valid [OF v] fetch_lacp_fields_parts
        split: snmp_value.splits sum.splits prod.splits)
  let ?entries = "get_interface_id_name_mapping c
                  (map (\<lambda>(a, b, c, d). be32 a b c d) (quads octets))"
  from o have e: "snd (get_port_channel_member_ports c (Some lag_name)) = Inr ?entries"
    by (simp add: member_ports_valid(1) [OF v])
  from s obtain statuses where
    c: "collect (map (member_status c lag_name) ?entries) = Inr statuses"
    and st: "st = ([] @ map2 lacp_member ?entries statuses,
                 (if list_ex fst statuses then 1 else 0),
                 0 + int (length (filter (\<lambda>s. fst (snd (snd s))) statuses)),
                 0 + int (length (filter (\<lambda>s. snd (snd (snd s))) statuses)))"
    unfolding for_each_status by (auto split: sum.splits)
  from e c r st show ?thesis by simp
qed

lemma stub_member_ports:
  "snd (get_port_channel_member_ports (stub_device m) (Some ''po50''))
     = Inr [(65, ''ethernet2/1''), (66, ''ethernet2/2'')]"
  by (simp add: member_ports_valid [OF stub_lag(1,2)] stub_lag)

lemma stub_strip:
  "strip_chars ''ethernet'' ''ethernet2/1'' = ''2/1''"
  "strip_chars ''ethernet'' ''ethernet2/2'' = ''2/2''"
  by (simp_all add: strip_chars_def)

lemma stub_member_status:
  "member_status (stub_device m) ''po50'' (65, ''ethernet2/1'') = Inr (True, True, True, True)"
  "member_status (stub_device m) ''po50'' (66, ''ethernet2/2'') = Inr (True, False, True, False)"
  by (simp_all add: member_status_def stub_strip stub_member_info stub_member_lacp)

lemma stub_lag_list:
  "get_port_channel_list (callback_cli (stub_device ''dynamic''))
     = Inr [(''po50'', ''dynamic'', ''2/1'', True)]"
  by (simp add: get_port_channel_list_def stub_device_def starts_with_def is_space_def Let_def)
section \<open>The OID key encoder and the member-port list decoder\<close>

text \<open>
  C1. For every name of 1 to 64 characters, the key that the encoder builds is the
  table column followed by the row id of the name (its length, then the code of each
  character), and decoding that row id the way \<open>get_lag_id_name_map\<close> does (drop the
  length, turn each number back into its character) gives the name again; a walk
  that holds this row under some LAG id returns the name for that id.
\<close>

theorem oid_index_round_trip:
  "1 \<le> length name \<Longrightarrow> length name \<le> 64 \<Longrightarrow>
     lag_key_oid column (Some name) = Inr (column @ ''.'' @ lag_row_id name)
     \<and> row_id_lag_name (lag_row_id name) = Inr name
     \<and> get_lag_id_name_map [(lag_id, lag_row_id name)] (py_str lag_id) = Inr (Some name)"
  by (auto simp: lag_key_oid_def row_id_lag_name_round)

theorem oid_index_round_trip_witness:
  "lag_key_oid ''1.3.6'' (Some ''po50'') = Inr ''1.3.6.4.112.111.53.48''
   \<and> row_id_lag_name ''4.112.111.53.48'' = Inr ''po50''
   \<and> get_lag_id_name_map [(50, ''4.112.111.53.48'')] ''50'' = Inr (Some ''po50'')"
proof -
  have r: "lag_row_id ''po50'' = ''4.112.111.53.48''"
    by (simp add: lag_row_id_def key_oid_def ord_def py_str_def str_nat.simps digit_char_def)
  have s: "py_str 50 = ''50''"
    by (simp add: py_str_def str_nat.simps digit_char_def)
  have "1 \<le> length ''po50''" and "length ''po50'' \<le> 64" by simp_all
  from oid_index_round_trip [OF this, where column = "''1.3.6''" and lag_id = 50]
  show ?thesis unfolding r s by (simp add: s)
qed

text \<open>
  C2. For every name of 1 to 64 characters the encoder produces the index
  \<open>[len(name), code(name[0]), code(name[1]), ...]\<close>: the key is the column followed by
  the text of that sequence, and the text reads back as that sequence. For a name
  whose length is outside 1 to 64 the encoder raises the length error
  (\<open>ValueError\<close> with the message of the source) and produces no index.
\<close>

theorem lag_key_oid_index:
  "(1 \<le> length name \<and> length name \<le> 64 \<longrightarrow>
      lag_key_oid column (Some name)
        = Inr (column @ ''.'' @ oid_text (int (length name) # map ord name))
      \<and> oid_ints (oid_text (int (length name) # map ord name))
        = Inr (int (length name) # map ord name))
   \<and> (length name < 1 \<or> 64 < length name \<longrightarrow>
      lag_key_oid column (Some name)
        = Inl (ValueError ''Port-channel name should be 1-64 characters''))"
  using oid_ints_row_id [of name]
  by (simp add: lag_key_oid_def lag_row_id_text)

theorem lag_key_oid_index_witness:
  "lag_key_oid ''1.3.6'' (Some ''po50'') = Inr ''1.3.6.4.112.111.53.48''
   \<and> oid_ints ''4.112.111.53.48'' = Inr [4, 112, 111, 53, 48]
   \<and> lag_key_oid ''1.3.6'' (Some '''')
       = Inl (ValueError ''Port-channel name should be 1-64 characters'')
   \<and> lag_key_oid ''1.3.6'' (Some (replicate 65 CHR ''a''))
       = Inl (ValueError ''Port-channel name should be 1-64 characters'')"
proof -
  have t: "oid_text [4, 112, 111, 53, 48] = ''4.112.111.53.48''"
    by (simp add: py_str_def str_nat.simps digit_char_def)
  have m: "int (length ''po50'') # map ord ''po50'' = [4, 112, 111, 53, 48]"
    by (simp add: ord_def)
  have a: "lag_key_oid ''1.3.6'' (Some ''po50'') = Inr ''1.3.6.4.112.111.53.48''
      \<and> oid_ints ''4.112.111.53.48'' = Inr [4, 112, 111, 53, 48]"
    using lag_key_oid_index [of "''po50''" "''1.3.6''"] unfolding m t by simp
  have b: "lag_key_oid ''1.3.6'' (Some '''')
       = Inl (ValueError ''Port-channel name should be 1-64 characters'')"
    using lag_key_oid_index [of "''''" "''1.3.6''"] by simp
  have c: "lag_key_oid ''1.3.6'' (Some (replicate 65 CHR ''a''))
       = Inl (ValueError ''Port-channel name should be 1-64 characters'')"
    using lag_key_oid_index [of "replicate 65 CHR ''a''" "''1.3.6''"] by simp
  from a b c show ?thesis by simp
qed

text \<open>
  C3. For every octet string of length \<open>4k\<close> the decoder returns exactly \<open>k\<close>
  integers: the \<open>i\<close>-th is the big-endian value of the \<open>i\<close>-th group of four octets,
  so the order of the groups is kept, and each value is an unsigned 32-bit number.
\<close>

theorem member_list_groups:
  "length raw = 4 * k \<Longrightarrow>
     member_list raw =
       Inr (map (\<lambda>i. be32 (raw ! (4 * i)) (raw ! (4 * i + 1)) (raw ! (4 * i + 2)) (raw ! (4 * i + 3)))
              [0..<k])
     \<and> (\<forall>ms. member_list raw = Inr ms \<longrightarrow>
           length ms = k \<and> (\<forall>i<k. 0 \<le> ms ! i \<and> ms ! i < 2 ^ 32))"
proof -
  assume l: "length raw = 4 * k"
  then have k: "length raw div 4 = k" by simp
  have e: "member_list raw =
       Inr (map (\<lambda>i. be32 (raw ! (4 * i)) (raw ! (4 * i + 1)) (raw ! (4 * i + 2)) (raw ! (4 * i + 3)))
              [0..<k])"
    using member_list_index [of raw] by (simp only: k)
  show ?thesis
  proof (intro conjI allI impI)
    show "member_list raw =
       Inr (map (\<lambda>i. be32 (raw ! (4 * i)) (raw ! (4 * i + 1)) (raw ! (4 * i + 2)) (raw ! (4 * i + 3)))
              [0..<k])" by (rule e)
  next
    fix ms assume "member_list raw = Inr ms"
    with e show "length ms = k" by auto
  next
    fix ms i assume m: "member_list raw = Inr ms" and i: "i < k"
    from m e i have "ms ! i = be32 (raw ! (4 * i)) (raw ! (4 * i + 1)) (raw ! (4 * i + 2)) (raw ! (4 * i + 3))"
      by auto
    then show "0 \<le> ms ! i" "ms ! i < 2 ^ 32" using be32_range by simp_all
  qed
qed

theorem member_list_groups_witness:
  "member_list [CHR 0x00, CHR 0x00, CHR 0x01, CHR 0x41, CHR 0x00, CHR 0x10, CHR 0x00, CHR 0xFF]
     = Inr [321, 1048831]"
proof -
  have "length [CHR 0x00, CHR 0x00, CHR 0x01, CHR 0x41, CHR 0x00, CHR 0x10, CHR 0x00, CHR 0xFF]
          = 4 * 2" by simp
  from member_list_groups [OF this] show ?thesis
    by (simp add: be32_def ord_def upt_rec)
qed

text \<open>
  C4, as the code has it. The decoder has no check of the length. For an octet string
  whose length is not a multiple of 4 it raises nothing: it returns the integers of
  the complete groups of four octets, in their order, and the one to three octets
  after the last complete group are ignored.
\<close>

theorem member_list_truncates:
  "length raw mod 4 \<noteq> 0 \<Longrightarrow>
     member_list raw =
       Inr (map (\<lambda>i. be32 (raw ! (4 * i)) (raw ! (4 * i + 1)) (raw ! (4 * i + 2)) (raw ! (4 * i + 3)))
              [0..<length raw div 4])
     \<and> member_list raw = member_list (take (4 * (length raw div 4)) raw)"
  using member_list_index [of raw] member_list_take [of raw] by simp

theorem member_list_truncates_witness:
  "member_list [CHR 0x00, CHR 0x00, CHR 0x01, CHR 0x41, CHR 0x00, CHR 0x10]
     = Inr [321]
   \<and> member_list [CHR 0x00, CHR 0x00, CHR 0x01, CHR 0x41, CHR 0x00, CHR 0x10]
     = member_list [CHR 0x00, CHR 0x00, CHR 0x01, CHR 0x41]"
proof -
  have "length [CHR 0x00, CHR 0x00, CHR 0x01, CHR 0x41, CHR 0x00, CHR 0x10] mod 4 \<noteq> 0"
    by simp
  from member_list_truncates [OF this] show ?thesis
    by (auto simp: be32_def ord_def upt_rec)
qed

text \<open>
  The claim as the specification states it fails: five octets are not a multiple of
  four, and the decoder returns a list.
\<close>

theorem member_list_no_malformed_payload:
  "length [CHR 0x00, CHR 0x00, CHR 0x01, CHR 0x41, CHR 0x07] mod 4 = 1
   \<and> member_list [CHR 0x00, CHR 0x00, CHR 0x01, CHR 0x41, CHR 0x07] = Inr [321]"
  by (simp add: member_list_quads be32_def ord_def)

section \<open>The CLI screen scraper\<close>

text \<open>
  C5, as the code has it. Detection of an error line is done by
  \<open>get_lacp_member_info\<close>, line by line: when a line contains \<open>Error\<close> and the lines
  before it were read without an exception, the operation raises \<open>ValueError\<close> with
  the text of that line, whatever follows it; lines that contain neither \<open>Error\<close> nor
  the interface name are always read without an exception. \<open>get_port_channel_list\<close>
  has no such check and reads a line that contains \<open>Error\<close> as any other line.
  Before the header the line is skipped, and the result is that of the lines after
  it (read as table lines when the line itself contains \<open>Deploy\<close>). In the table the
  line is a data line: with at least five fields it gives a row and the lines after
  it are read, with fewer fields it raises \<open>IndexError\<close>, and when it contains
  \<open>Deploy\<close> it gives no row. The only exception of \<open>get_port_channel_list\<close> is
  \<open>IndexError\<close>.
\<close>

theorem error_line_detection:
  "(split_on CHR 0x0A (cli_get (''show lacp lag_name '' @ lag_name)) = pre @ line # post
      \<and> lacp_lines intf_name [] pre = Inr info \<and> py_in ''Error'' line
    \<longrightarrow> get_lacp_member_info cli_get lag_name intf_name = Inl (ValueError line))
   \<and> ((\<forall>p\<in>set pre. \<not> py_in ''Error'' p \<and> \<not> py_in intf_name p)
    \<longrightarrow> lacp_lines intf_name [] pre = Inr [])
   \<and> (split_on CHR 0x0A (cli_get ''show lag brief'') = bpre @ bline # bpost
      \<and> (\<forall>p\<in>set bpre. \<not> py_in ''Deploy'' p) \<and> py_in ''Error'' bline
    \<longrightarrow> get_port_channel_list cli_get
          = (if py_in ''Deploy'' bline then lag_lines True [] bpost
             else lag_lines False [] bpost))
   \<and> (split_on CHR 0x0A (cli_get ''show lag brief'')
        = bpre @ hdr # rows @ eline # later @ [] # rest
      \<and> (\<forall>p\<in>set bpre. \<not> py_in ''Deploy'' p) \<and> py_in ''Deploy'' hdr
      \<and> (\<forall>r\<in>set (rows @ later). r \<noteq> [] \<and> \<not> py_in ''Deploy'' r \<and> 5 \<le> length (py_split r))
      \<and> py_in ''Error'' eline
    \<longrightarrow> get_port_channel_list cli_get
          = (if py_in ''Deploy'' eline then Inr (map lag_row (rows @ later))
             else if length (py_split eline) < 5 then Inl IndexError
             else Inr (map lag_row (rows @ eline # later))))
   \<and> (\<forall>e. get_port_channel_list cli_get = Inl e \<longrightarrow> e = IndexError)"
proof -
  have a: "split_on CHR 0x0A (cli_get (''show lacp lag_name '' @ lag_name)) = pre @ line # post
      \<and> lacp_lines intf_name [] pre = Inr info \<and> py_in ''Error'' line
    \<longrightarrow> get_lacp_member_info cli_get lag_name intf_name = Inl (ValueError line)"
  proof
    assume h: "split_on CHR 0x0A (cli_get (''show lacp lag_name '' @ lag_name))
        = pre @ line # post
      \<and> lacp_lines intf_name [] pre = Inr info \<and> py_in ''Error'' line"
    then have "lacp_lines intf_name [] (pre @ line # post)
                 = lacp_lines intf_name info (line # post)"
      by (intro lacp_lines_append) simp
    with h show "get_lacp_member_info cli_get lag_name intf_name = Inl (ValueError line)"
      by (simp add: get_lacp_member_info_def)
  qed
  have b: "(\<forall>p\<in>set pre. \<not> py_in ''Error'' p \<and> \<not> py_in intf_name p)
    \<longrightarrow> lacp_lines intf_name [] pre = Inr []"
    by (rule impI) (rule lacp_lines_skip)
  have c: "split_on CHR 0x0A (cli_get ''show lag brief'') = bpre @ bline # bpost
      \<and> (\<forall>p\<in>set bpre. \<not> py_in ''Deploy'' p) \<and> py_in ''Error'' bline
    \<longrightarrow> get_port_channel_list cli_get
          = (if py_in ''Deploy'' bline then lag_lines True [] bpost
             else lag_lines False [] bpost)"
  proof
    assume h: "split_on CHR 0x0A (cli_get ''show lag brief'') = bpre @ bline # bpost
      \<and> (\<forall>p\<in>set bpre. \<not> py_in ''Deploy'' p) \<and> py_in ''Error'' bline"
    then have s: "split_on CHR 0x0A (cli_get ''show lag brief'') = bpre @ bline # bpost"
      and p: "\<forall>p\<in>set bpre. \<not> py_in ''Deploy'' p"
      by simp_all
    have "get_port_channel_list cli_get = lag_lines False [] (bline # bpost)"
      unfolding get_port_channel_list_def s using p by (rule lag_lines_before_header)
    then show "get_port_channel_list cli_get
          = (if py_in ''Deploy'' bline then lag_lines True [] bpost
             else lag_lines False [] bpost)"
      by simp
  qed
  have d: "split_on CHR 0x0A (cli_get ''show lag brief'')
        = bpre @ hdr # rows @ eline # later @ [] # rest
      \<and> (\<forall>p\<in>set bpre. \<not> py_in ''Deploy'' p) \<and> py_in ''Deploy'' hdr
      \<and> (\<forall>r\<in>set (rows @ later). r \<noteq> [] \<and> \<not> py_in ''Deploy'' r \<and> 5 \<le> length (py_split r))
      \<and> py_in ''Error'' eline
    \<longrightarrow> get_port_channel_list cli_get
          = (if py_in ''Deploy'' eline then Inr (map lag_row (rows @ later))
             else if length (py_split eline) < 5 then Inl IndexError
             else Inr (map lag_row (rows @ eline # later)))"
  proof
    assume h: "split_on CHR 0x0A (cli_get ''show lag brief'')
        = bpre @ hdr # rows @ eline # later @ [] # rest
      \<and> (\<forall>p\<in>set bpre. \<not> py_in ''Deploy'' p) \<and> py_in ''Deploy'' hdr
      \<and> (\<forall>r\<in>set (rows @ later). r \<noteq> [] \<and> \<not> py_in ''Deploy'' r \<and> 5 \<le> length (py_split r))
      \<and> py_in ''Error'' eline"
    then have s: "split_on CHR 0x0A (cli_get ''show lag brief'')
        = bpre @ hdr # rows @ eline # later @ [] # rest"
      and p: "\<forall>p\<in>set bpre. \<not> py_in ''Deploy'' p"
      and hd: "py_in ''Deploy'' hdr"
      and r: "\<forall>r\<in>set (rows @ later). r \<noteq> [] \<and> \<not> py_in ''Deploy'' r \<and> 5 \<le> length (py_split r)"
      and e: "py_in ''Error'' eline"
      by simp_all
    from e have n: "eline \<noteq> []" by (rule py_in_nonempty)
    have "get_port_channel_list cli_get
            = lag_lines False [] (hdr # rows @ eline # later @ [] # rest)"
      unfolding get_port_channel_list_def s using p by (rule lag_lines_before_header)
    also have "\<dots> = lag_lines True [] (rows @ eline # later @ [] # rest)"
      using hd by simp
    also have "\<dots> = (if py_in ''Deploy'' eline then Inr (map lag_row (rows @ later))
             else if length (py_split eline) < 5 then Inl IndexError
             else Inr (map lag_row (rows @ eline # later)))"
      using r n by (rule lag_lines_table_line)
    finally show "get_port_channel_list cli_get
          = (if py_in ''Deploy'' eline then Inr (map lag_row (rows @ later))
             else if length (py_split eline) < 5 then Inl IndexError
             else Inr (map lag_row (rows @ eline # later)))" .
  qed
  have e: "\<forall>e. get_port_channel_list cli_get = Inl e \<longrightarrow> e = IndexError"
    unfolding get_port_channel_list_def by (intro allI impI) (rule lag_lines_error)
  from a b c d e show ?thesis by (intro conjI) assumption+
qed

theorem error_line_detection_witness:
  "get_lacp_member_info (\<lambda>c. ''Port  Role\<newline>Error: LAG po50 does not exist\<newline>1/1'') ''po50'' ''1/1''
     = Inl (ValueError ''Error: LAG po50 does not exist'')
   \<and> get_port_channel_list (\<lambda>c. ''Error: bad\<newline>LAG Deploy\<newline>po1 static Y 1 1/1\<newline>\<newline>'')
       = Inr [(''po1'', ''static'', ''1/1'', True)]
   \<and> get_port_channel_list (\<lambda>c. ''Error Deploy\<newline>po1 static Y 1 1/1\<newline>\<newline>'')
       = Inr [(''po1'', ''static'', ''1/1'', True)]
   \<and> get_port_channel_list
       (\<lambda>c. ''LAG Deploy\<newline>po1 static Y 1 1/1\<newline>Error a b c d\<newline>po2 static N 2 2/1\<newline>\<newline>'')
       = Inr [(''po1'', ''static'', ''1/1'', True), (''Error'', ''a'', ''d'', False),
              (''po2'', ''static'', ''2/1'', False)]
   \<and> get_port_channel_list
       (\<lambda>c. ''LAG Deploy\<newline>po1 static Y 1 1/1\<newline>Error Deploy b c d\<newline>po2 static N 2 2/1\<newline>\<newline>'')
       = Inr [(''po1'', ''static'', ''1/1'', True), (''po2'', ''static'', ''2/1'', False)]
   \<and> get_port_channel_list (\<lambda>c. ''LAG Deploy\<newline>Error: bad\<newline>\<newline>'') = Inl IndexError"
proof -
  let ?lacp = "\<lambda>c::string. ''Port  Role\<newline>Error: LAG po50 does not exist\<newline>1/1''"
  let ?before = "\<lambda>c::string. ''Error: bad\<newline>LAG Deploy\<newline>po1 static Y 1 1/1\<newline>\<newline>''"
  let ?header = "\<lambda>c::string. ''Error Deploy\<newline>po1 static Y 1 1/1\<newline>\<newline>''"
  let ?row = "\<lambda>c::string. ''LAG Deploy\<newline>po1 static Y 1 1/1\<newline>Error a b c d\<newline>po2 static N 2 2/1\<newline>\<newline>''"
  let ?norow = "\<lambda>c::string. ''LAG Deploy\<newline>po1 static Y 1 1/1\<newline>Error Deploy b c d\<newline>po2 static N 2 2/1\<newline>\<newline>''"
  let ?short = "\<lambda>c::string. ''LAG Deploy\<newline>Error: bad\<newline>\<newline>''"
  note t = error_line_detection
  have p: "\<forall>p\<in>set [''Port  Role'']. \<not> py_in ''Error'' p \<and> \<not> py_in ''1/1'' p"
    by (simp add: starts_with_def)
  note skip = t [where pre = "[''Port  Role'']" and intf_name = "''1/1''",
      THEN conjunct2, THEN conjunct1, THEN mp, OF p]
  have "split_on CHR 0x0A (?lacp (''show lacp lag_name '' @ ''po50''))
          = [''Port  Role''] @ ''Error: LAG po50 does not exist'' # [''1/1'']
        \<and> lacp_lines ''1/1'' [] [''Port  Role''] = Inr []
        \<and> py_in ''Error'' ''Error: LAG po50 does not exist''"
    using skip by (simp add: starts_with_def)
  note w1 = t [where cli_get = ?lacp and lag_name = "''po50''" and pre = "[''Port  Role'']"
      and line = "''Error: LAG po50 does not exist''" and post = "[''1/1'']"
      and intf_name = "''1/1''" and info = "[]",
      THEN conjunct1, THEN mp, OF this]
  have "split_on CHR 0x0A (?before ''show lag brief'')
          = [] @ ''Error: bad'' # [''LAG Deploy'', ''po1 static Y 1 1/1'', [], []]
        \<and> (\<forall>p\<in>set []. \<not> py_in ''Deploy'' p) \<and> py_in ''Error'' ''Error: bad''"
    by (simp add: starts_with_def)
  note w2 = t [where cli_get = ?before and bpre = "[]" and bline = "''Error: bad''"
      and bpost = "[''LAG Deploy'', ''po1 static Y 1 1/1'', [], []]",
      THEN conjunct2, THEN conjunct2, THEN conjunct1, THEN mp, OF this]
  have w2': "get_port_channel_list ?before = Inr [(''po1'', ''static'', ''1/1'', True)]"
    unfolding w2 by (simp add: starts_with_def is_space_def Let_def)
  have "split_on CHR 0x0A (?header ''show lag brief'')
          = [] @ ''Error Deploy'' # [''po1 static Y 1 1/1'', [], []]
        \<and> (\<forall>p\<in>set []. \<not> py_in ''Deploy'' p) \<and> py_in ''Error'' ''Error Deploy''"
    by (simp add: starts_with_def)
  note w3 = t [where cli_get = ?header and bpre = "[]" and bline = "''Error Deploy''"
      and bpost = "[''po1 static Y 1 1/1'', [], []]",
      THEN conjunct2, THEN conjunct2, THEN conjunct1, THEN mp, OF this]
  have w3': "get_port_channel_list ?header = Inr [(''po1'', ''static'', ''1/1'', True)]"
    unfolding w3 by (simp add: starts_with_def is_space_def Let_def)
  have "split_on CHR 0x0A (?row ''show lag brief'')
          = [] @ ''LAG Deploy'' # [''po1 static Y 1 1/1'']
            @ ''Error a b c d'' # [''po2 static N 2 2/1''] @ [] # [[]]
        \<and> (\<forall>p\<in>set []. \<not> py_in ''Deploy'' p) \<and> py_in ''Deploy'' ''LAG Deploy''
        \<and> (\<forall>r\<in>set ([''po1 static Y 1 1/1''] @ [''po2 static N 2 2/1'']).
              r \<noteq> [] \<and> \<not> py_in ''Deploy'' r \<and> 5 \<le> length (py_split r))
        \<and> py_in ''Error'' ''Error a b c d''"
    by (simp add: starts_with_def is_space_def)
  note w4 = t [where cli_get = ?row and bpre = "[]" and hdr = "''LAG Deploy''"
      and rows = "[''po1 static Y 1 1/1'']" and eline = "''Error a b c d''"
      and later = "[''po2 static N 2 2/1'']" and rest = "[[]]",
      THEN conjunct2, THEN conjunct2, THEN conjunct2, THEN conjunct1, THEN mp, OF this]
  have w4': "get_port_channel_list ?row
       = Inr [(''po1'', ''static'', ''1/1'', True), (''Error'', ''a'', ''d'', False),
              (''po2'', ''static'', ''2/1'', False)]"
    unfolding w4 by (simp add: starts_with_def is_space_def lag_row_def)
  have "split_on CHR 0x0A (?norow ''show lag brief'')
          = [] @ ''LAG Deploy'' # [''po1 static Y 1 1/1'']
            @ ''Error Deploy b c d'' # [''po2 static N 2 2/1''] @ [] # [[]]
        \<and> (\<forall>p\<in>set []. \<not> py_in ''Deploy'' p) \<and> py_in ''Deploy'' ''LAG Deploy''
        \<and> (\<forall>r\<in>set ([''po1 static Y 1 1/1''] @ [''po2 static N 2 2/1'']).
              r \<noteq> [] \<and> \<not> py_in ''Deploy'' r \<and> 5 \<le> length (py_split r))
        \<and> py_in ''Error'' ''Error Deploy b c d''"
    by (simp add: starts_with_def is_space_def)
  note w5 = t [where cli_get = ?norow and bpre = "[]" and hdr = "''LAG Deploy''"
      and rows = "[''po1 static Y 1 1/1'']" and eline = "''Error Deploy b c d''"
      and later = "[''po2 static N 2 2/1'']" and rest = "[[]]",
      THEN conjunct2, THEN conjunct2, THEN conjunct2, THEN conjunct1, THEN mp, OF this]
  have w5': "get_port_channel_list ?norow
       = Inr [(''po1'', ''static'', ''1/1'', True), (''po2'', ''static'', ''2/1'', False)]"
    unfolding w5 by (simp add: starts_with_def is_space_def lag_row_def)
  have "\<exists>e. get_port_channel_list ?short = Inl e"
    by (simp add: get_port_channel_list_def starts_with_def is_space_def Let_def)
  then obtain e where e: "get_port_channel_list ?short = Inl e" ..
  from t [where cli_get = ?short, THEN conjunct2, THEN conjunct2, THEN conjunct2,
      THEN conjunct2, THEN spec, THEN mp, OF e]
  have w6: "get_port_channel_list ?short = Inl IndexError"
    using e by simp
  show ?thesis
    by (intro conjI) (rule w1, rule w2', rule w3', rule w4', rule w5', rule w6)
qed

text \<open>
  The claim as the specification states it fails for \<open>get_port_channel_list\<close>: an
  error line before the header is skipped, and one in the table is read as a row.
  It also fails in \<open>get_lacp_member_info\<close> when an earlier line breaks the scan.
\<close>

theorem error_line_not_uniform:
  "py_in ''Error'' ''Error: bad''
   \<and> get_port_channel_list (\<lambda>c. ''Error: bad\<newline>'') = Inr []
   \<and> get_port_channel_list (\<lambda>c. ''Deploy\<newline>Error a b c d\<newline>'')
       = Inr [(''Error'', ''a'', ''d'', False)]
   \<and> get_lacp_member_info (\<lambda>c. ''1/1\<newline>Error: x'') ''po50'' ''1/1'' = Inl IndexError"
  by (simp add: get_port_channel_list_def get_lacp_member_info_def starts_with_def is_space_def
      Let_def)

text \<open>
  C6, as the code has it. Let the lines of the output be any lines without
  \<open>Deploy\<close>, then a line that contains \<open>Deploy\<close>, then \<open>N\<close> table lines, then an empty
  line, then anything. When each table line is not empty, does not contain \<open>Deploy\<close>
  and has at least five fields, the result is exactly the \<open>N\<close> rows of these lines,
  in their order: name, type, primary port (fields 0, 1 and 4) and whether field 2
  is \<open>Y\<close>. Nothing after the empty line is read.
\<close>

theorem header_table_parse:
  "split_on CHR 0x0A (cli_get ''show lag brief'') = pre @ hdr # rows @ [] # rest \<Longrightarrow>
   \<forall>p\<in>set pre. \<not> py_in ''Deploy'' p \<Longrightarrow>
   py_in ''Deploy'' hdr \<Longrightarrow>
   \<forall>r\<in>set rows. r \<noteq> [] \<and> \<not> py_in ''Deploy'' r \<and> 5 \<le> length (py_split r) \<Longrightarrow>
     get_port_channel_list cli_get = Inr (map lag_row rows)
     \<and> (\<forall>pos. get_port_channel_list cli_get = Inr pos \<longrightarrow> length pos = length rows)"
proof -
  assume s: "split_on CHR 0x0A (cli_get ''show lag brief'') = pre @ hdr # rows @ [] # rest"
    and p: "\<forall>p\<in>set pre. \<not> py_in ''Deploy'' p"
    and h: "py_in ''Deploy'' hdr"
    and r: "\<forall>r\<in>set rows. r \<noteq> [] \<and> \<not> py_in ''Deploy'' r \<and> 5 \<le> length (py_split r)"
  have "get_port_channel_list cli_get = lag_lines False [] (hdr # rows @ [] # rest)"
    unfolding get_port_channel_list_def s using p by (rule lag_lines_before_header)
  also have "\<dots> = lag_lines True [] (rows @ [] # rest)" using h by simp
  also have "\<dots> = Inr ([] @ map lag_row rows)" using r by (rule lag_lines_rows)
  finally have "get_port_channel_list cli_get = Inr (map lag_row rows)" by simp
  then show ?thesis by auto
qed

theorem header_table_parse_witness:
  "get_port_channel_list
     (\<lambda>c. ''Total number of LAGs: 2\<newline>LAG Type Deploy Trunk Intf\<newline>po50 dynamic Y 1 1/1\<newline>po51 static N 2 2/1\<newline>\<newline>Deploy junk'')
   = Inr [(''po50'', ''dynamic'', ''1/1'', True), (''po51'', ''static'', ''2/1'', False)]"
proof -
  let ?out = "\<lambda>c::string. ''Total number of LAGs: 2\<newline>LAG Type Deploy Trunk Intf\<newline>po50 dynamic Y 1 1/1\<newline>po51 static N 2 2/1\<newline>\<newline>Deploy junk''"
  have s: "split_on CHR 0x0A (?out ''show lag brief'')
      = [''Total number of LAGs: 2''] @ ''LAG Type Deploy Trunk Intf''
        # [''po50 dynamic Y 1 1/1'', ''po51 static N 2 2/1''] @ [] # [''Deploy junk'']"
    by simp
  have p: "\<forall>p\<in>set [''Total number of LAGs: 2'']. \<not> py_in ''Deploy'' p"
    by (simp add: starts_with_def)
  have h: "py_in ''Deploy'' ''LAG Type Deploy Trunk Intf''"
    by (simp add: starts_with_def)
  have r: "\<forall>r\<in>set [''po50 dynamic Y 1 1/1'', ''po51 static N 2 2/1''].
             r \<noteq> [] \<and> \<not> py_in ''Deploy'' r \<and> 5 \<le> length (py_split r)"
    by (simp add: starts_with_def is_space_def)
  from header_table_parse [of ?out, OF s p h r] show ?thesis
    by (simp add: lag_row_def is_space_def)
qed

text \<open>
  The claim as the specification states it fails: a table line that is not empty
  but has fewer than five fields raises \<open>IndexError\<close>, and a table line that
  contains \<open>Deploy\<close> gives no row.
\<close>

theorem header_table_parse_short_line:
  "get_port_channel_list (\<lambda>c. ''LAG Type Deploy\<newline>po1 static\<newline>\<newline>'') = Inl IndexError
   \<and> get_port_channel_list (\<lambda>c. ''LAG Type Deploy\<newline>Deploy1 static Y 1 1/1\<newline>\<newline>'') = Inr []"
  by (simp add: get_port_channel_list_def starts_with_def is_space_def Let_def)

section \<open>Pattern-match mode\<close>

text \<open>
  C8, as the code has it. \<open>get_ip_addresses\<close> returns \<open>False\<close>, as its docstring
  says, when the pattern that opens the scrape does not match the output
  (\<open>ip address:\<close> for version 4, \<open>IPv6 is enabled\<close> for version 6). An exception
  reaches the caller only after that pattern has matched: \<open>IndexError\<close> when the
  IPv4 output has fewer than five pieces, \<open>AttributeError\<close> when the IPv6 address
  pattern or the subnet pattern finds nothing.
\<close>

theorem get_ip_addresses_missing_field:
  "ip_int_type kwargs = Some t \<Longrightarrow> ip_name kwargs = Some nm \<Longrightarrow>
   out4 = callback (''show ip inter '' @ py_lower t @ '' '' @ nm @ '' | include address'') \<Longrightarrow>
   out6 = callback (''show ipv6 inter '' @ py_lower t @ '' '' @ nm) \<Longrightarrow>
     (ip_version kwargs = Some 4 \<and> \<not> py_in ''ip address:'' out4
        \<longrightarrow> get_ip_addresses callback kwargs = Inr PyFalse)
     \<and> (ip_version kwargs = Some 4 \<and> py_in ''ip address:'' out4
          \<and> length (split_on CHR '' '' out4) < 5
        \<longrightarrow> get_ip_addresses callback kwargs = Inl IndexError)
     \<and> (ip_version kwargs = Some 6 \<and> \<not> py_in ''IPv6 is enabled'' out6
        \<longrightarrow> get_ip_addresses callback kwargs = Inr PyFalse)
     \<and> (ip_version kwargs = Some 6 \<and> py_in ''IPv6 is enabled'' out6
          \<and> search_preferred out6 = None
        \<longrightarrow> get_ip_addresses callback kwargs = Inl AttributeError)
     \<and> (\<forall>g1 g2. ip_version kwargs = Some 6 \<and> py_in ''IPv6 is enabled'' out6
          \<and> search_preferred out6 = Some (g1, g2) \<and> search_subnet g2 = None
        \<longrightarrow> get_ip_addresses callback kwargs = Inl AttributeError)"
  by (simp add: get_ip_addresses_def Let_def)

theorem get_ip_addresses_missing_field_witness:
  "get_ip_addresses (\<lambda>c. ''Invalid input'')
      \<lparr>ip_int_type = Some ''Ethernet'', ip_name = Some ''4/4'', ip_version = Some 4\<rparr>
     = Inr PyFalse
   \<and> get_ip_addresses (\<lambda>c. ''ip address: 10.1.1.1/24'')
      \<lparr>ip_int_type = Some ''Ethernet'', ip_name = Some ''4/4'', ip_version = Some 4\<rparr>
     = Inl IndexError
   \<and> get_ip_addresses (\<lambda>c. ''Invalid input'')
      \<lparr>ip_int_type = Some ''Ethernet'', ip_name = Some ''4/4'', ip_version = Some 6\<rparr>
     = Inr PyFalse
   \<and> get_ip_addresses (\<lambda>c. ''IPv6 is enabled'')
      \<lparr>ip_int_type = Some ''Ethernet'', ip_name = Some ''4/4'', ip_version = Some 6\<rparr>
     = Inl AttributeError
   \<and> get_ip_addresses (\<lambda>c. ''IPv6 is enabled\<newline>a [Preferred],  subnet is b'')
      \<lparr>ip_int_type = Some ''Ethernet'', ip_name = Some ''4/4'', ip_version = Some 6\<rparr>
     = Inl AttributeError"
proof -
  let ?k4 = "\<lparr>ip_int_type = Some ''Ethernet'', ip_name = Some ''4/4'', ip_version = Some 4\<rparr>"
  let ?k6 = "\<lparr>ip_int_type = Some ''Ethernet'', ip_name = Some ''4/4'', ip_version = Some 6\<rparr>"
  have a: "get_ip_addresses (\<lambda>c. ''Invalid input'') ?k4 = Inr PyFalse"
    using get_ip_addresses_missing_field
      [of ?k4 "''Ethernet''" "''4/4''" "''Invalid input''" "\<lambda>c. ''Invalid input''" "''Invalid input''"]
    by (simp add: starts_with_def)
  have b: "get_ip_addresses (\<lambda>c. ''ip address: 10.1.1.1/24'') ?k4 = Inl IndexError"
    using get_ip_addresses_missing_field
      [of ?k4 "''Ethernet''" "''4/4''" "''ip address: 10.1.1.1/24''"
          "\<lambda>c. ''ip address: 10.1.1.1/24''" "''ip address: 10.1.1.1/24''"]
    by (simp add: starts_with_def)
  have c: "get_ip_addresses (\<lambda>c. ''Invalid input'') ?k6 = Inr PyFalse"
    using get_ip_addresses_missing_field
      [of ?k6 "''Ethernet''" "''4/4''" "''Invalid input''" "\<lambda>c. ''Invalid input''" "''Invalid input''"]
    by (simp add: starts_with_def)
  have d: "get_ip_addresses (\<lambda>c. ''IPv6 is enabled'') ?k6 = Inl AttributeError"
    using get_ip_addresses_missing_field
      [of ?k6 "''Ethernet''" "''4/4''" "''IPv6 is enabled''" "\<lambda>c. ''IPv6 is enabled''"
          "''IPv6 is enabled''"]
    by (simp add: starts_with_def search_preferred_def match_preferred_line_def
        preferred_literal_def upt_rec)
  have s: "search_preferred ''IPv6 is enabled\<newline>a [Preferred],  subnet is b'' = Some (''a'', ''b'')"
    by (simp add: starts_with_def search_preferred_def match_preferred_line_def
        preferred_literal_def upt_rec)
  have n: "search_subnet ''b'' = None"
    by (simp add: search_subnet_def starts_with_def)
  have e: "get_ip_addresses (\<lambda>c. ''IPv6 is enabled\<newline>a [Preferred],  subnet is b'') ?k6
             = Inl AttributeError"
    using get_ip_addresses_missing_field
      [of ?k6 "''Ethernet''" "''4/4''" "''IPv6 is enabled\<newline>a [Preferred],  subnet is b''"
          "\<lambda>c. ''IPv6 is enabled\<newline>a [Preferred],  subnet is b''"
          "''IPv6 is enabled\<newline>a [Preferred],  subnet is b''"] s n
    by (simp add: starts_with_def)
  from a b c d e show ?thesis by simp
qed

text \<open>
  The claim as the specification states it fails: with no \<open>ip address:\<close> in the
  output the caller gets \<open>False\<close> and no exception.
\<close>

theorem get_ip_addresses_returns_false:
  "\<not> py_in ''ip address:'' ''Invalid input''
   \<and> get_ip_addresses (\<lambda>c. ''Invalid input'')
        \<lparr>ip_int_type = Some ''ethernet'', ip_name = Some ''4/4'', ip_version = Some 4\<rparr>
      = Inr PyFalse"
  by (simp add: get_ip_addresses_def starts_with_def Let_def)

section \<open>The port-channel aggregator\<close>

text \<open>
  C7. For every LAG of the aggregation: \<open>port_channels\<close> returns one record for each
  LAG that \<open>get_port_channel_list\<close> lists, in the order of the list, and each record
  is the one that the loop body \<open>port_channel\<close> builds for this LAG. When the mode of
  the LAG is \<open>dynamic\<close> and it is deployed, the actor and partner fields of its record
  are the values fetched by SNMP from the \<open>dot3adAgg\<close> objects of its interface index,
  and the status of each member comes from a second CLI scrape (\<open>show lacp lag_name\<close>,
  once for each member): the \<open>sync\<close> of the member's entry, \<open>ready_agg\<close> and the two
  link counters are those that the scraped dictionaries give; the fields are not
  empty when the answers of the device are not. When its mode is not \<open>dynamic\<close> or it
  is not deployed, the fields are empty strings, the counters are zero and the
  members are listed with \<open>sync\<close> 0, nothing but the three requests on the LAG table
  is sent, and this is no error: a record is returned whenever the name and the
  member list are well formed.
\<close>

theorem port_channel_lacp_policy:
  "(\<not> (mode = ''dynamic'' \<and> deploy) \<longrightarrow>
      set (fst (port_channel c (lag_name, mode, primary_port, deploy)))
        \<subseteq> {SnmpGet (table_oid c ''fdryLinkAggregationGroupIfIndex'' lag_name),
            SnmpGet (table_oid c ''fdryLinkAggregationGroupId'' lag_name),
            SnmpGet (table_oid c ''fdryLinkAggregationGroupIfList'' lag_name)}
      \<and> (\<forall>r. snd (port_channel c (lag_name, mode, primary_port, deploy)) = Inr r \<longrightarrow>
            (\<exists>entries. snd (get_port_channel_member_ports c (Some lag_name)) = Inr entries
               \<and> interfaces r = map plain_member entries)
            \<and> system_priority r = SnmpStr [] \<and> actor_system_id r = []
            \<and> partner_oper_priority r = SnmpStr [] \<and> partner_system_id r = []
            \<and> admin_key r = SnmpStr [] \<and> oper_key r = SnmpStr []
            \<and> partner_oper_key r = SnmpStr []
            \<and> rx_link_count r = 0 \<and> tx_link_count r = 0
            \<and> individual_agg r = 0 \<and> ready_agg r = 0
            \<and> list_all (\<lambda>m. sync m = ''0'') (interfaces r))
      \<and> (1 \<le> length lag_name \<and> length lag_name \<le> 64
            \<and> (\<exists>octets. callback_snmp c (table_oid c ''fdryLinkAggregationGroupIfList'' lag_name)
                   = SnmpStr octets)
          \<longrightarrow> (\<exists>r. snd (port_channel c (lag_name, mode, primary_port, deploy)) = Inr r)))
   \<and> (mode = ''dynamic'' \<and> deploy \<longrightarrow>
      (\<forall>r idx. snd (port_channel c (lag_name, mode, primary_port, deploy)) = Inr r
          \<and> idx = snmp_str
                (callback_snmp c (table_oid c ''fdryLinkAggregationGroupIfIndex'' lag_name))
        \<longrightarrow>
          (\<exists>entries statuses.
              snd (get_port_channel_member_ports c (Some lag_name)) = Inr entries
              \<and> collect (map (member_status c lag_name) entries) = Inr statuses
              \<and> interfaces r = map2 lacp_member entries statuses
              \<and> ready_agg r = (if list_ex fst statuses then 1 else 0)
              \<and> tx_link_count r = int (length (filter (\<lambda>s. fst (snd (snd s))) statuses))
              \<and> rx_link_count r = int (length (filter (\<lambda>s. snd (snd (snd s))) statuses))
              \<and> individual_agg r = 0)
          \<and> system_priority r = callback_snmp c (lacp_oid c ''dot3adAggActorSystemPriority'' idx)
          \<and> actor_system_id r
              = mac_address c (callback_snmp c (lacp_oid c ''dot3adAggActorSystemID'' idx))
          \<and> partner_oper_priority r
              = callback_snmp c (lacp_oid c ''dot3adAggPartnerSystemPriority'' idx)
          \<and> partner_system_id r
              = mac_address c (callback_snmp c (lacp_oid c ''dot3adAggPartnerSystemID'' idx))
          \<and> admin_key r = callback_snmp c (lacp_oid c ''dot3adAggActorAdminKey'' idx)
          \<and> oper_key r = callback_snmp c (lacp_oid c ''dot3adAggActorOperKey'' idx)
          \<and> partner_oper_key r = callback_snmp c (lacp_oid c ''dot3adAggPartnerOperKey'' idx)
          \<and> fst (port_channel c (lag_name, mode, primary_port, deploy))
              = [SnmpGet (table_oid c ''fdryLinkAggregationGroupIfIndex'' lag_name),
                 SnmpGet (table_oid c ''fdryLinkAggregationGroupId'' lag_name),
                 SnmpGet (lacp_oid c ''dot3adAggActorSystemPriority'' idx),
                 SnmpGet (lacp_oid c ''dot3adAggActorSystemID'' idx),
                 SnmpGet (lacp_oid c ''dot3adAggPartnerSystemPriority'' idx),
                 SnmpGet (lacp_oid c ''dot3adAggPartnerSystemID'' idx),
                 SnmpGet (lacp_oid c ''dot3adAggActorAdminKey'' idx),
                 SnmpGet (lacp_oid c ''dot3adAggActorOperKey'' idx),
                 SnmpGet (lacp_oid c ''dot3adAggPartnerOperKey'' idx),
                 SnmpGet (table_oid c ''fdryLinkAggregationGroupIfList'' lag_name)]
                @ replicate (length (interfaces r))
                    (CliGet (''show lacp lag_name '' @ lag_name))
          \<and> ((\<forall>oid. snmp_str (callback_snmp c oid) \<noteq> []) \<and> (\<forall>v. mac_address c v \<noteq> [])
              \<longrightarrow> snmp_str (system_priority r) \<noteq> [] \<and> actor_system_id r \<noteq> []
                  \<and> snmp_str (partner_oper_priority r) \<noteq> [] \<and> partner_system_id r \<noteq> []
                  \<and> snmp_str (admin_key r) \<noteq> [] \<and> snmp_str (oper_key r) \<noteq> []
                  \<and> snmp_str (partner_oper_key r) \<noteq> [])))
   \<and> (snd (port_channels c)
        = (case get_port_channel_list (callback_cli c) of
             Inl e \<Rightarrow> Inl e
           | Inr po_list \<Rightarrow> collect (map (\<lambda>po. snd (port_channel c po)) po_list))
      \<and> (\<forall>rs. snd (port_channels c) = Inr rs \<longrightarrow>
            (\<exists>po_list. get_port_channel_list (callback_cli c) = Inr po_list
               \<and> length rs = length po_list
               \<and> (\<forall>i<length po_list. snd (port_channel c (po_list ! i)) = Inr (rs ! i))
               \<and> fst (port_channels c)
                   = CliGet ''show lag brief''
                     # concat (map (\<lambda>po. fst (port_channel c po)) po_list))))
   \<and> (\<forall>entry agg in_sync tx rx.
        member_status c lag_name entry = Inr (agg, in_sync, tx, rx) \<longrightarrow>
          (\<exists>port txc rxc.
              get_lacp_member_info (callback_cli c) lag_name
                  (strip_chars ''ethernet'' (snd entry)) = Inr port
              \<and> agg = (dict_get port ''actor_agg'' = Inr (PBool True)
                       \<and> dict_get port ''part_agg'' = Inr (PBool True))
              \<and> in_sync = (agg \<and> dict_get port ''actor_coll'' = Inr (PBool True)
                           \<and> dict_get port ''part_coll'' = Inr (PBool True)
                           \<and> dict_get port ''actor_dist'' = Inr (PBool True)
                           \<and> dict_get port ''part_dist'' = Inr (PBool True))
              \<and> int_item port ''tx_count'' = Inr txc \<and> tx = (0 < txc)
              \<and> int_item port ''rx_count'' = Inr rxc \<and> rx = (0 < rxc)))"
  apply (rule conjI)
   apply (rule impI)
   apply (rule conjI)
    apply (erule plain_trace)
   apply (rule conjI)
    apply (rule allI, rule impI)
    apply (rule conjI)
     apply (erule (1) plain_members)
    apply (erule (1) plain_fields)
   apply (rule impI)
   apply (erule (1) plain_no_error)
  apply (rule conjI)
   apply (rule impI, rule allI, rule allI, rule impI)
   apply (rule conjI)
    apply (erule (1) lacp_members)
   apply (erule (1) lacp_fetched)
  apply (rule conjI)
   apply (rule conjI)
    apply (rule port_channels_records)
   apply (rule allI, rule impI)
   apply (erule port_channels_each)
  apply (rule allI, rule allI, rule allI, rule allI, rule allI, rule impI)
  apply (erule member_status_scrape)
  done

theorem port_channel_lacp_policy_witness:
  "(\<exists>r. snd (port_channel (stub_device ''static'') (''po50'', ''static'', ''2/1'', True)) = Inr r
        \<and> interfaces r
            = [\<lparr>rbridge_id = 0, interface_type = ''ethernet'', interface_name = ''2/1'',
                 actor_port = 65, sync = ''0''\<rparr>,
               \<lparr>rbridge_id = 0, interface_type = ''ethernet'', interface_name = ''2/2'',
                 actor_port = 66, sync = ''0''\<rparr>]
        \<and> (system_priority r = SnmpStr [] \<and> actor_system_id r = []
            \<and> partner_oper_priority r = SnmpStr [] \<and> partner_system_id r = []
            \<and> admin_key r = SnmpStr [] \<and> oper_key r = SnmpStr []
            \<and> partner_oper_key r = SnmpStr []
            \<and> rx_link_count r = 0 \<and> tx_link_count r = 0
            \<and> individual_agg r = 0 \<and> ready_agg r = 0
            \<and> list_all (\<lambda>m. sync m = ''0'') (interfaces r)))
   \<and> set (fst (port_channel (stub_device ''static'') (''po50'', ''static'', ''2/1'', True)))
        \<subseteq> {SnmpGet ''IfIndex.4.112.111.53.48'', SnmpGet ''Id.4.112.111.53.48'',
            SnmpGet ''IfList.4.112.111.53.48''}
   \<and> (\<exists>r. snd (port_channel (stub_device ''dynamic'') (''po50'', ''dynamic'', ''2/1'', True))
          = Inr r
        \<and> aggregator_mode r = ''dynamic'' \<and> length (interfaces r) = 2
        \<and> interfaces r
            = [\<lparr>rbridge_id = 0, interface_type = ''ethernet'', interface_name = ''2/1'',
                 actor_port = 65, sync = ''1''\<rparr>,
               \<lparr>rbridge_id = 0, interface_type = ''ethernet'', interface_name = ''2/2'',
                 actor_port = 66, sync = ''0''\<rparr>]
        \<and> ready_agg r = 1 \<and> tx_link_count r = 2 \<and> rx_link_count r = 1
        \<and> snd (port_channels (stub_device ''dynamic'')) = Inr [r]
        \<and> fst (port_channels (stub_device ''dynamic''))
            = CliGet ''show lag brief''
              # fst (port_channel (stub_device ''dynamic'') (''po50'', ''dynamic'', ''2/1'', True))
        \<and> system_priority r = SnmpInt 32768 \<and> actor_system_id r = ''00:24:38:9e:2a:00''
        \<and> partner_oper_priority r = SnmpInt 32768
        \<and> partner_system_id r = ''00:24:38:9e:2a:00''
        \<and> admin_key r = SnmpInt 32768 \<and> oper_key r = SnmpInt 32768
        \<and> partner_oper_key r = SnmpInt 32768
        \<and> fst (port_channel (stub_device ''dynamic'') (''po50'', ''dynamic'', ''2/1'', True))
            = [SnmpGet ''IfIndex.4.112.111.53.48'', SnmpGet ''Id.4.112.111.53.48'',
               SnmpGet ''dot3adAggActorSystemPriority.1234'',
               SnmpGet ''dot3adAggActorSystemID.1234'',
               SnmpGet ''dot3adAggPartnerSystemPriority.1234'',
               SnmpGet ''dot3adAggPartnerSystemID.1234'',
               SnmpGet ''dot3adAggActorAdminKey.1234'',
               SnmpGet ''dot3adAggActorOperKey.1234'',
               SnmpGet ''dot3adAggPartnerOperKey.1234'',
               SnmpGet ''IfList.4.112.111.53.48'',
               CliGet ''show lacp lag_name po50'', CliGet ''show lacp lag_name po50'']
        \<and> (snmp_str (system_priority r) \<noteq> [] \<and> actor_system_id r \<noteq> []
            \<and> snmp_str (partner_oper_priority r) \<noteq> [] \<and> partner_system_id r \<noteq> []
            \<and> snmp_str (admin_key r) \<noteq> [] \<and> snmp_str (oper_key r) \<noteq> []
            \<and> snmp_str (partner_oper_key r) \<noteq> []))
   \<and> (\<exists>port rxc.
        get_lacp_member_info (callback_cli (stub_device ''dynamic'')) ''po50'' ''2/2'' = Inr port
        \<and> dict_get port ''actor_agg'' = Inr (PBool True)
        \<and> dict_get port ''part_agg'' = Inr (PBool True)
        \<and> \<not> (dict_get port ''actor_coll'' = Inr (PBool True)
               \<and> dict_get port ''part_coll'' = Inr (PBool True)
               \<and> dict_get port ''actor_dist'' = Inr (PBool True)
               \<and> dict_get port ''part_dist'' = Inr (PBool True))
        \<and> int_item port ''rx_count'' = Inr rxc \<and> \<not> 0 < rxc)"
proof -
  let ?s = "port_channel (stub_device ''static'') (''po50'', ''static'', ''2/1'', True)"
  let ?d = "port_channel (stub_device ''dynamic'') (''po50'', ''dynamic'', ''2/1'', True)"
  have ns: "\<not> (''static'' = ''dynamic'' \<and> True)" by simp
  note plain = port_channel_lacp_policy
    [where mode = "''static''" and deploy = True and c = "stub_device ''static''"
       and lag_name = "''po50''" and primary_port = "''2/1''",
     THEN conjunct1, THEN mp, OF ns]
  have v: "1 \<le> length ''po50'' \<and> length ''po50'' \<le> 64
          \<and> (\<exists>octets. callback_snmp (stub_device ''static'')
                  (table_oid (stub_device ''static'') ''fdryLinkAggregationGroupIfList'' ''po50'')
                = SnmpStr octets)"
    by (simp add: stub_lag)
  from plain [THEN conjunct2, THEN conjunct2, THEN mp, OF v]
  obtain r where r: "snd ?s = Inr r" ..
  note static_all = plain [THEN conjunct2, THEN conjunct1, THEN spec, THEN mp, OF r]
  note fields = static_all [THEN conjunct2]
  from static_all [THEN conjunct1] obtain entries where
    "snd (get_port_channel_member_ports (stub_device ''static'') (Some ''po50'')) = Inr entries
     \<and> interfaces r = map plain_member entries" ..
  then have si: "interfaces r
            = [\<lparr>rbridge_id = 0, interface_type = ''ethernet'', interface_name = ''2/1'',
                 actor_port = 65, sync = ''0''\<rparr>,
               \<lparr>rbridge_id = 0, interface_type = ''ethernet'', interface_name = ''2/2'',
                 actor_port = 66, sync = ''0''\<rparr>]"
    by (auto simp: stub_member_ports plain_member_def stub_strip)
  have a: "\<exists>r. snd ?s = Inr r
        \<and> interfaces r
            = [\<lparr>rbridge_id = 0, interface_type = ''ethernet'', interface_name = ''2/1'',
                 actor_port = 65, sync = ''0''\<rparr>,
               \<lparr>rbridge_id = 0, interface_type = ''ethernet'', interface_name = ''2/2'',
                 actor_port = 66, sync = ''0''\<rparr>]
        \<and> (system_priority r = SnmpStr [] \<and> actor_system_id r = []
            \<and> partner_oper_priority r = SnmpStr [] \<and> partner_system_id r = []
            \<and> admin_key r = SnmpStr [] \<and> oper_key r = SnmpStr []
            \<and> partner_oper_key r = SnmpStr []
            \<and> rx_link_count r = 0 \<and> tx_link_count r = 0
            \<and> individual_agg r = 0 \<and> ready_agg r = 0
            \<and> list_all (\<lambda>m. sync m = ''0'') (interfaces r))"
    by (rule exI [of _ r], rule conjI, rule r, rule conjI, rule si, rule fields)
  have b: "set (fst ?s)
        \<subseteq> {SnmpGet ''IfIndex.4.112.111.53.48'', SnmpGet ''Id.4.112.111.53.48'',
            SnmpGet ''IfList.4.112.111.53.48''}"
    using plain [THEN conjunct1] by (simp only: stub_lag)
  have yd: "''dynamic'' = ''dynamic'' \<and> True" by simp
  note lacp = port_channel_lacp_policy
    [where mode = "''dynamic''" and deploy = True and c = "stub_device ''dynamic''"
       and lag_name = "''po50''" and primary_port = "''2/1''",
     THEN conjunct2, THEN conjunct1, THEN mp, OF yd, THEN spec, THEN spec, THEN mp]
  from stub_port_channel_lacp obtain q where
    q: "snd ?d = Inr q \<and> length (interfaces q) = 2 \<and> aggregator_mode q = ''dynamic''" ..
  then have q1: "snd ?d = Inr q" and q2: "length (interfaces q) = 2"
    and q3: "aggregator_mode q = ''dynamic''"
    by simp_all
  have i: "snd ?d = Inr q \<and> ''1234'' = snmp_str (callback_snmp (stub_device ''dynamic'')
      (table_oid (stub_device ''dynamic'') ''fdryLinkAggregationGroupIfIndex'' ''po50''))"
    using q1 by (simp add: stub_lag)
  note whole = lacp [OF i]
  note f = whole [THEN conjunct2]
  from whole [THEN conjunct1] obtain entries statuses where
    "snd (get_port_channel_member_ports (stub_device ''dynamic'') (Some ''po50'')) = Inr entries
     \<and> collect (map (member_status (stub_device ''dynamic'') ''po50'') entries) = Inr statuses
     \<and> interfaces q = map2 lacp_member entries statuses
     \<and> ready_agg q = (if list_ex fst statuses then 1 else 0)
     \<and> tx_link_count q = int (length (filter (\<lambda>s. fst (snd (snd s))) statuses))
     \<and> rx_link_count q = int (length (filter (\<lambda>s. snd (snd (snd s))) statuses))
     \<and> individual_agg q = 0"
    by (elim exE)
  then have en: "entries = [(65, ''ethernet2/1''), (66, ''ethernet2/2'')]"
    and st: "collect (map (member_status (stub_device ''dynamic'') ''po50'') entries)
               = Inr statuses"
    and m1: "interfaces q = map2 lacp_member entries statuses"
    and m2: "ready_agg q = (if list_ex fst statuses then 1 else 0)"
    and m3: "tx_link_count q = int (length (filter (\<lambda>s. fst (snd (snd s))) statuses))"
    and m4: "rx_link_count q = int (length (filter (\<lambda>s. snd (snd (snd s))) statuses))"
    by (auto simp: stub_member_ports)
  from st have ss: "statuses = [(True, True, True, True), (True, False, True, False)]"
    unfolding en by (simp add: stub_member_status)
  have d1: "interfaces q
            = [\<lparr>rbridge_id = 0, interface_type = ''ethernet'', interface_name = ''2/1'',
                 actor_port = 65, sync = ''1''\<rparr>,
               \<lparr>rbridge_id = 0, interface_type = ''ethernet'', interface_name = ''2/2'',
                 actor_port = 66, sync = ''0''\<rparr>]"
    unfolding m1 en ss by (simp add: lacp_member_def stub_strip)
  have d2: "ready_agg q = 1" unfolding m2 ss by simp
  have d3: "tx_link_count q = 2" unfolding m3 ss by simp
  have d4: "rx_link_count q = 1" unfolding m4 ss by simp
  note pcs = port_channel_lacp_policy
    [where c = "stub_device ''dynamic''", THEN conjunct2, THEN conjunct2, THEN conjunct1]
  have d5: "snd (port_channels (stub_device ''dynamic'')) = Inr [q]"
    unfolding pcs [THEN conjunct1] stub_lag_list by (simp add: q1)
  from pcs [THEN conjunct2, THEN spec, THEN mp, OF d5] obtain po_list where
    "get_port_channel_list (callback_cli (stub_device ''dynamic'')) = Inr po_list
     \<and> length [q] = length po_list
     \<and> (\<forall>i<length po_list.
           snd (port_channel (stub_device ''dynamic'') (po_list ! i)) = Inr ([q] ! i))
     \<and> fst (port_channels (stub_device ''dynamic''))
         = CliGet ''show lag brief''
           # concat (map (\<lambda>po. fst (port_channel (stub_device ''dynamic'') po)) po_list)" ..
  then have d6: "fst (port_channels (stub_device ''dynamic''))
            = CliGet ''show lag brief'' # fst ?d"
    by (auto simp: stub_lag_list)
  note scrape = port_channel_lacp_policy
    [where c = "stub_device ''dynamic''" and lag_name = "''po50''",
     THEN conjunct2, THEN conjunct2, THEN conjunct2, THEN spec, THEN spec, THEN spec,
     THEN spec, THEN spec, THEN mp, OF stub_member_status(2)]
  have m: "\<exists>port rxc.
        get_lacp_member_info (callback_cli (stub_device ''dynamic'')) ''po50'' ''2/2'' = Inr port
        \<and> dict_get port ''actor_agg'' = Inr (PBool True)
        \<and> dict_get port ''part_agg'' = Inr (PBool True)
        \<and> \<not> (dict_get port ''actor_coll'' = Inr (PBool True)
               \<and> dict_get port ''part_coll'' = Inr (PBool True)
               \<and> dict_get port ''actor_dist'' = Inr (PBool True)
               \<and> dict_get port ''part_dist'' = Inr (PBool True))
        \<and> int_item port ''rx_count'' = Inr rxc \<and> \<not> 0 < rxc"
    using scrape by (simp add: stub_strip) blast
  note f1 = f [THEN conjunct1]
  note f2 = f [THEN conjunct2, THEN conjunct1]
  note f3 = f [THEN conjunct2, THEN conjunct2, THEN conjunct1]
  note f4 = f [THEN conjunct2, THEN conjunct2, THEN conjunct2, THEN conjunct1]
  note f5 = f [THEN conjunct2, THEN conjunct2, THEN conjunct2, THEN conjunct2, THEN conjunct1]
  note g = f [THEN conjunct2, THEN conjunct2, THEN conjunct2, THEN conjunct2, THEN conjunct2]
  note f6 = g [THEN conjunct1]
  note f7 = g [THEN conjunct2, THEN conjunct1]
  note f8 = g [THEN conjunct2, THEN conjunct2, THEN conjunct1]
  note f9 = g [THEN conjunct2, THEN conjunct2, THEN conjunct2]
  have o: "\<And>object. lacp_oid (stub_device ''dynamic'') (''dot3adAgg'' @ object) ''1234''
             = ''dot3adAgg'' @ (object @ ''.1234'')"
    by (simp add: lacp_oid_def stub_answers)
  have e1: "system_priority q = SnmpInt 32768"
    using f1 o [of "''ActorSystemPriority''"] stub_lacp_value [where rest = "''ActorSystemPriority.1234''"] by simp
  have e2: "actor_system_id q = ''00:24:38:9e:2a:00''"
    using f2 by (simp only: stub_answers)
  have e3: "partner_oper_priority q = SnmpInt 32768"
    using f3 o [of "''PartnerSystemPriority''"] stub_lacp_value [where rest = "''PartnerSystemPriority.1234''"] by simp
  have e4: "partner_system_id q = ''00:24:38:9e:2a:00''"
    using f4 by (simp only: stub_answers)
  have e5: "admin_key q = SnmpInt 32768"
    using f5 o [of "''ActorAdminKey''"] stub_lacp_value [where rest = "''ActorAdminKey.1234''"] by simp
  have e6: "oper_key q = SnmpInt 32768"
    using f6 o [of "''ActorOperKey''"] stub_lacp_value [where rest = "''ActorOperKey.1234''"] by simp
  have e7: "partner_oper_key q = SnmpInt 32768"
    using f7 o [of "''PartnerOperKey''"] stub_lacp_value [where rest = "''PartnerOperKey.1234''"] by simp
  have e8: "fst ?d
            = [SnmpGet ''IfIndex.4.112.111.53.48'', SnmpGet ''Id.4.112.111.53.48'',
               SnmpGet ''dot3adAggActorSystemPriority.1234'',
               SnmpGet ''dot3adAggActorSystemID.1234'',
               SnmpGet ''dot3adAggPartnerSystemPriority.1234'',
               SnmpGet ''dot3adAggPartnerSystemID.1234'',
               SnmpGet ''dot3adAggActorAdminKey.1234'',
               SnmpGet ''dot3adAggActorOperKey.1234'',
               SnmpGet ''dot3adAggPartnerOperKey.1234'',
               SnmpGet ''IfList.4.112.111.53.48'',
               CliGet ''show lacp lag_name po50'', CliGet ''show lacp lag_name po50'']"
    using f8 by (simp add: stub_lag q2 lacp_oid_def stub_answers numeral_2_eq_2)
  have h: "(\<forall>oid. snmp_str (callback_snmp (stub_device ''dynamic'') oid) \<noteq> [])
           \<and> (\<forall>v. mac_address (stub_device ''dynamic'') v \<noteq> [])"
    by (simp add: stub_answers)
  note e9 = f9 [THEN mp, OF h]
  have c: "\<exists>r. snd ?d = Inr r
        \<and> aggregator_mode r = ''dynamic'' \<and> length (interfaces r) = 2
        \<and> interfaces r
            = [\<lparr>rbridge_id = 0, interface_type = ''ethernet'', interface_name = ''2/1'',
                 actor_port = 65, sync = ''1''\<rparr>,
               \<lparr>rbridge_id = 0, interface_type = ''ethernet'', interface_name = ''2/2'',
                 actor_port = 66, sync = ''0''\<rparr>]
        \<and> ready_agg r = 1 \<and> tx_link_count r = 2 \<and> rx_link_count r = 1
        \<and> snd (port_channels (stub_device ''dynamic'')) = Inr [r]
        \<and> fst (port_channels (stub_device ''dynamic'')) = CliGet ''show lag brief'' # fst ?d
        \<and> system_priority r = SnmpInt 32768 \<and> actor_system_id r = ''00:24:38:9e:2a:00''
        \<and> partner_oper_priority r = SnmpInt 32768
        \<and> partner_system_id r = ''00:24:38:9e:2a:00''
        \<and> admin_key r = SnmpInt 32768 \<and> oper_key r = SnmpInt 32768
        \<and> partner_oper_key r = SnmpInt 32768
        \<and> fst ?d
            = [SnmpGet ''IfIndex.4.112.111.53.48'', SnmpGet ''Id.4.112.111.53.48'',
               SnmpGet ''dot3adAggActorSystemPriority.1234'',
               SnmpGet ''dot3adAggActorSystemID.1234'',
               SnmpGet ''dot3adAggPartnerSystemPriority.1234'',
               SnmpGet ''dot3adAggPartnerSystemID.1234'',
               SnmpGet ''dot3adAggActorAdminKey.1234'',
               SnmpGet ''dot3adAggActorOperKey.1234'',
               SnmpGet ''dot3adAggPartnerOperKey.1234'',
               SnmpGet ''IfList.4.112.111.53.48'',
               CliGet ''show lacp lag_name po50'', CliGet ''show lacp lag_name po50'']
        \<and> (snmp_str (system_priority r) \<noteq> [] \<and> actor_system_id r \<noteq> []
            \<and> snmp_str (partner_oper_priority r) \<noteq> [] \<and> partner_system_id r \<noteq> []
            \<and> snmp_str (admin_key r) \<noteq> [] \<and> snmp_str (oper_key r) \<noteq> []
            \<and> snmp_str (partner_oper_key r) \<noteq> [])"
    by (rule exI [of _ q], intro conjI, rule q1, rule q3, rule q2, rule d1,
        rule d2, rule d3, rule d4, rule d5, rule d6, rule e1, rule e2, rule e3,
        rule e4, rule e5, rule e6, rule e7, rule e8, rule e9 [THEN conjunct1],
        rule e9 [THEN conjunct2, THEN conjunct1],
        rule e9 [THEN conjunct2, THEN conjunct2, THEN conjunct1],
        rule e9 [THEN conjunct2, THEN conjunct2, THEN conjunct2, THEN conjunct1],
        rule e9 [THEN conjunct2, THEN conjunct2, THEN conjunct2, THEN conjunct2, THEN conjunct1],
        rule e9 [THEN conjunct2, THEN conjunct2, THEN conjunct2, THEN conjunct2, THEN conjunct2,
                 THEN conjunct1],
        rule e9 [THEN conjunct2, THEN conjunct2, THEN conjunct2, THEN conjunct2, THEN conjunct2,
                 THEN conjunct2])
  show ?thesis by (rule conjI, rule a, rule conjI, rule b, rule conjI, rule c, rule m)
qed

section \<open>Properties of the ACL parameter parsers\<close>

text \<open>
  C9. \<open>parse_mirror\<close> never returns the string \<open>mirror\<close>: it returns \<open>None\<close> when the
  key \<open>mirror\<close> is present and raises \<open>KeyError\<close> when it is absent. In the same way
  \<open>parse_log\<close> never returns \<open>log\<close>: it returns \<open>None\<close> when the key \<open>log\<close> is present
  and raises \<open>KeyError\<close> when it is absent. Every branch after the first condition is
  unreachable.
\<close>

theorem parse_mirror_log_never_keyword:
  "parse_mirror p = (if mirror p \<noteq> None then Inr None else Inl (KeyError ''mirror''))
   \<and> parse_mirror p \<noteq> Inr (Some ''mirror'')
   \<and> parse_log p = (if log p \<noteq> None then Inr None else Inl (KeyError ''log''))
   \<and> parse_log p \<noteq> Inr (Some ''log'')"
  by (simp add: parse_mirror_def parse_log_def getitem_def)

theorem parse_mirror_log_never_keyword_witness:
  "parse_mirror \<lparr>seq_id = None, action = Some ''permit'', mirror = Some ''True'', log = None\<rparr>
     = Inr None
   \<and> parse_mirror \<lparr>seq_id = None, action = Some ''permit'', mirror = None, log = None\<rparr>
     = Inl (KeyError ''mirror'')
   \<and> parse_log \<lparr>seq_id = None, action = None, mirror = None, log = Some ''True''\<rparr>
     = Inr None
   \<and> parse_log \<lparr>seq_id = None, action = None, mirror = Some ''False'', log = None\<rparr>
     = Inl (KeyError ''log'')"
  using parse_mirror_log_never_keyword
    [of "\<lparr>seq_id = None, action = Some ''permit'', mirror = Some ''True'', log = None\<rparr>"]
    parse_mirror_log_never_keyword
    [of "\<lparr>seq_id = None, action = Some ''permit'', mirror = None, log = None\<rparr>"]
    parse_mirror_log_never_keyword
    [of "\<lparr>seq_id = None, action = None, mirror = None, log = Some ''True''\<rparr>"]
    parse_mirror_log_never_keyword
    [of "\<lparr>seq_id = None, action = None, mirror = Some ''False'', log = None\<rparr>"]
  by simp

text \<open>
  C10, as the code has it. \<open>parse_seq_id\<close> returns \<open>None\<close> when \<open>seq_id\<close> is absent or
  falsy (\<open>None\<close>, \<open>False\<close>, 0, a zero float, the empty string), so \<open>seq_id = 0\<close> gives
  \<open>None\<close> and not an error although it is outside the documented range. For an
  integer from 1 to 214748364 it returns the decimal string of the number (the string
  that \<open>int\<close> reads back as the number), and every other integer but 0 raises
  \<open>ValueError\<close>. There is no test of the type: a truthy value \<open>v\<close> with \<open>v > 0\<close> and
  \<open>v < 214748365\<close> gives \<open>str(v)\<close>, so \<open>True\<close> gives \<open>True\<close> and a float strictly between
  0 and 214748365 gives its text; a truthy value outside these bounds raises
  \<open>ValueError\<close>, among them every other float but zero and, by the ordering of
  Python 2, every string that is not empty.
\<close>

theorem parse_seq_id_cases:
  "(seq_id p = None \<or> (\<exists>v. seq_id p = Some v \<and> \<not> is_true v)
      \<longrightarrow> parse_seq_id float_str p = Inr None)
   \<and> (\<forall>v. \<not> is_true v \<longleftrightarrow>
          v = ObjNone \<or> v = ObjBool False \<or> v = ObjInt 0 \<or> (\<exists>e. v = ObjFloat 0 e) \<or> v = ObjStr [])
   \<and> (\<forall>n. seq_id p = Some (ObjInt n) \<and> 1 \<le> n \<and> n \<le> 214748364
          \<longrightarrow> parse_seq_id float_str p = Inr (Some (py_str n)) \<and> py_int (py_str n) = Inr n)
   \<and> (\<forall>n. seq_id p = Some (ObjInt n) \<and> n \<noteq> 0 \<and> \<not> (1 \<le> n \<and> n \<le> 214748364)
          \<longrightarrow> parse_seq_id float_str p = Inl (ValueError (seq_id_message (py_str n))))
   \<and> (seq_id p = Some (ObjBool True) \<longrightarrow> parse_seq_id float_str p = Inr (Some ''True''))
   \<and> (\<forall>m e. seq_id p = Some (ObjFloat m e) \<and> m \<noteq> 0
          \<longrightarrow> parse_seq_id float_str p
                = (if 0 < m \<and> less_int (ObjFloat m e) 214748365 then Inr (Some (float_str m e))
                   else Inl (ValueError (seq_id_message (float_str m e)))))
   \<and> (\<forall>s. seq_id p = Some (ObjStr s) \<and> s \<noteq> []
          \<longrightarrow> parse_seq_id float_str p = Inl (ValueError (seq_id_message s)))
   \<and> (\<forall>v. seq_id p = Some v \<and> is_true v
          \<longrightarrow> parse_seq_id float_str p
                = (if greater_int v 0 \<and> less_int v 214748365
                   then Inr (Some (str_of float_str v))
                   else Inl (ValueError (seq_id_message (str_of float_str v)))))"
proof -
  have f: "\<forall>v. \<not> is_true v \<longleftrightarrow>
          v = ObjNone \<or> v = ObjBool False \<or> v = ObjInt 0 \<or> (\<exists>e. v = ObjFloat 0 e) \<or> v = ObjStr []"
  proof
    fix v show "\<not> is_true v \<longleftrightarrow>
          v = ObjNone \<or> v = ObjBool False \<or> v = ObjInt 0 \<or> (\<exists>e. v = ObjFloat 0 e) \<or> v = ObjStr []"
      by (cases v) simp_all
  qed
  have g: "greater_int (ObjFloat m e) 0 = (0 < m)" for m e
    by (simp add: zero_less_mult_iff)
  have a: "seq_id p = None \<or> (\<exists>v. seq_id p = Some v \<and> \<not> is_true v)
      \<longrightarrow> parse_seq_id float_str p = Inr None"
    by (auto simp: parse_seq_id_def)
  have b: "\<forall>n. seq_id p = Some (ObjInt n) \<and> 1 \<le> n \<and> n \<le> 214748364
          \<longrightarrow> parse_seq_id float_str p = Inr (Some (py_str n)) \<and> py_int (py_str n) = Inr n"
    by (simp add: parse_seq_id_def py_int_py_str)
  have c: "\<forall>n. seq_id p = Some (ObjInt n) \<and> n \<noteq> 0 \<and> \<not> (1 \<le> n \<and> n \<le> 214748364)
          \<longrightarrow> parse_seq_id float_str p = Inl (ValueError (seq_id_message (py_str n)))"
    by (auto simp: parse_seq_id_def)
  have d: "seq_id p = Some (ObjBool True) \<longrightarrow> parse_seq_id float_str p = Inr (Some ''True'')"
    by (simp add: parse_seq_id_def)
  have e: "\<forall>m e. seq_id p = Some (ObjFloat m e) \<and> m \<noteq> 0
          \<longrightarrow> parse_seq_id float_str p
                = (if 0 < m \<and> less_int (ObjFloat m e) 214748365 then Inr (Some (float_str m e))
                   else Inl (ValueError (seq_id_message (float_str m e))))"
    by (simp add: parse_seq_id_def g del: greater_int.simps less_int.simps)
  have h: "\<forall>s. seq_id p = Some (ObjStr s) \<and> s \<noteq> []
          \<longrightarrow> parse_seq_id float_str p = Inl (ValueError (seq_id_message s))"
    by (simp add: parse_seq_id_def)
  have i: "\<forall>v. seq_id p = Some v \<and> is_true v
          \<longrightarrow> parse_seq_id float_str p
                = (if greater_int v 0 \<and> less_int v 214748365
                   then Inr (Some (str_of float_str v))
                   else Inl (ValueError (seq_id_message (str_of float_str v))))"
    by (simp add: parse_seq_id_def del: greater_int.simps less_int.simps)
  from a f b c d e h i show ?thesis by (intro conjI) assumption+
qed

theorem parse_seq_id_cases_witness:
  "parse_seq_id (\<lambda>m e. ''1.5'') \<lparr>seq_id = None, action = None, mirror = None, log = None\<rparr>
     = Inr None
   \<and> parse_seq_id (\<lambda>m e. ''1.5'')
       \<lparr>seq_id = Some (ObjInt 0), action = None, mirror = None, log = None\<rparr> = Inr None
   \<and> parse_seq_id (\<lambda>m e. ''1.5'')
       \<lparr>seq_id = Some (ObjInt 214748364), action = None, mirror = None, log = None\<rparr>
       = Inr (Some ''214748364'')
   \<and> py_int ''214748364'' = Inr 214748364
   \<and> parse_seq_id (\<lambda>m e. ''1.5'')
       \<lparr>seq_id = Some (ObjInt 214748365), action = None, mirror = None, log = None\<rparr>
       = Inl (ValueError (seq_id_message ''214748365''))
   \<and> parse_seq_id (\<lambda>m e. ''1.5'')
       \<lparr>seq_id = Some (ObjInt (- 1)), action = None, mirror = None, log = None\<rparr>
       = Inl (ValueError (seq_id_message ''-1''))
   \<and> parse_seq_id (\<lambda>m e. ''1.5'')
       \<lparr>seq_id = Some (ObjBool True), action = None, mirror = None, log = None\<rparr>
       = Inr (Some ''True'')
   \<and> parse_seq_id (\<lambda>m e. ''1.5'')
       \<lparr>seq_id = Some (ObjFloat 3 (- 1)), action = None, mirror = None, log = None\<rparr>
       = Inr (Some ''1.5'')
   \<and> parse_seq_id (\<lambda>m e. ''1.5'')
       \<lparr>seq_id = Some (ObjFloat (- 3) (- 1)), action = None, mirror = None, log = None\<rparr>
       = Inl (ValueError (seq_id_message ''1.5''))
   \<and> parse_seq_id (\<lambda>m e. ''1.5'')
       \<lparr>seq_id = Some (ObjStr ''7''), action = None, mirror = None, log = None\<rparr>
       = Inl (ValueError (seq_id_message ''7''))"
proof -
  let ?fs = "\<lambda>(m::int) e::int. ''1.5''"
  have s: "py_str 214748364 = ''214748364''" "py_str 214748365 = ''214748365''"
    "py_str (- 1) = ''-1''"
    by (simp_all add: py_str_def str_nat.simps digit_char_def)
  show ?thesis
    using
      parse_seq_id_cases [of "\<lparr>seq_id = None, action = None, mirror = None, log = None\<rparr>" ?fs]
      parse_seq_id_cases
        [of "\<lparr>seq_id = Some (ObjInt 0), action = None, mirror = None, log = None\<rparr>" ?fs]
      parse_seq_id_cases
        [of "\<lparr>seq_id = Some (ObjInt 214748364), action = None, mirror = None, log = None\<rparr>" ?fs]
      parse_seq_id_cases
        [of "\<lparr>seq_id = Some (ObjInt 214748365), action = None, mirror = None, log = None\<rparr>" ?fs]
      parse_seq_id_cases
        [of "\<lparr>seq_id = Some (ObjInt (- 1)), action = None, mirror = None, log = None\<rparr>" ?fs]
      parse_seq_id_cases
        [of "\<lparr>seq_id = Some (ObjBool True), action = None, mirror = None, log = None\<rparr>" ?fs]
      parse_seq_id_cases
        [of "\<lparr>seq_id = Some (ObjFloat 3 (- 1)), action = None, mirror = None, log = None\<rparr>" ?fs]
      parse_seq_id_cases
        [of "\<lparr>seq_id = Some (ObjFloat (- 3) (- 1)), action = None, mirror = None, log = None\<rparr>"
            ?fs]
      parse_seq_id_cases
        [of "\<lparr>seq_id = Some (ObjStr ''7''), action = None, mirror = None, log = None\<rparr>" ?fs]
    by (simp add: s)
qed

text \<open>
  The claim as it is stated fails, as the code has no test of the type: \<open>True\<close> and the
  float 1.5 are truthy and are no integer from 1 to 214748364 in decimal, and for them
  \<open>parse_seq_id\<close> raises nothing: it returns \<open>True\<close> and \<open>1.5\<close>.
\<close>

theorem parse_seq_id_no_type_test:
  "is_true (ObjBool True) \<and> is_true (ObjFloat 3 (- 1))
   \<and> parse_seq_id (\<lambda>m e. ''1.5'')
       \<lparr>seq_id = Some (ObjBool True), action = None, mirror = None, log = None\<rparr>
       = Inr (Some ''True'')
   \<and> parse_seq_id (\<lambda>m e. ''1.5'')
       \<lparr>seq_id = Some (ObjFloat 3 (- 1)), action = None, mirror = None, log = None\<rparr>
       = Inr (Some ''1.5'')"
  by (simp add: parse_seq_id_def)

end
